theory Spec2Isabelle
  imports Main "HOL-Library.Word"
begin

section \<open>Go values the controllers handle\<close>

text \<open>
  Errors are values. A Kubernetes API error carries a status reason; \<open>WithMessage\<close> is the
  error built by \<open>errors.Wrapf\<close> (github.com/pkg/errors) and by \<open>fmt.Errorf\<close> with
  \<open>%w\<close>: a new error value that keeps the wrapped one as its cause.
\<close>

datatype status_reason = NotFound | AlreadyExists | Conflict | Forbidden | ServerTimeout

datatype go_error =
    StatusError status_reason string
  | ErrorString string
  | WithMessage go_error string

text \<open>A run-time panic ends the call without a returned value.\<close>

datatype panic = NilPointerDereference | IndexOutOfRange

text \<open>What a call of a function with result type \<open>error\<close> does.\<close>

datatype outcome = Return "go_error option" | Panic panic

text \<open>\<open>k8serror.IsNotFound\<close> looks through wrapped errors for a status of reason NotFound.\<close>

fun IsNotFound :: "go_error \<Rightarrow> bool" where
  "IsNotFound (StatusError r m) = (r = NotFound)"
| "IsNotFound (ErrorString m) = False"
| "IsNotFound (WithMessage e m) = IsNotFound e"

text \<open>\<open>errors.Wrapf(err, format, args...)\<close>: nil for a nil error, else the annotated error.\<close>

fun Wrapf :: "go_error option \<Rightarrow> string \<Rightarrow> go_error option" where
  "Wrapf None msg = None"
| "Wrapf (Some e) msg = Some (WithMessage e msg)"

text \<open>\<open>types.NamespacedName\<close>, as (Namespace, Name); it prints as \<open>Namespace/Name\<close>.\<close>

type_synonym NamespacedName = "string \<times> string"

definition NamespacedName_String :: "NamespacedName \<Rightarrow> string" where
  "NamespacedName_String k = fst k @ ''/'' @ snd k"

record OwnerReference =
  refKind :: string
  refName :: string
  refUID :: string
  refController :: bool

text \<open>
  \<open>metav1.ObjectMeta\<close>, embedded by every resource type (record extension is the embedding).
  A nil map is \<open>None\<close>. \<open>ResourceVersion\<close> is the store's concurrency token; 0 stands for the
  empty string of an object that was never stored.
\<close>

record ObjectMeta =
  Name :: string
  Namespace :: string
  UID :: string
  ResourceVersion :: nat
  Labels :: "(string \<rightharpoonup> string) option"
  Annotations :: "(string \<rightharpoonup> string) option"
  OwnerReferences :: "OwnerReference list"

definition key_of :: "'a ObjectMeta_scheme \<Rightarrow> NamespacedName" where
  "key_of r = (Namespace r, Name r)"

section \<open>Delta processor\<close>

text \<open>
  Modelled from the spec: package \<open>processors\<close> (\<open>DeltaProcessor.ComputeDelta\<close> and the
  accessors of its result) is not among the sources. The definitions follow the case table
  of the spec's section 4.2 and its Delta invariants; an absent resource (a nil pointer) is
  \<open>None\<close>.
\<close>

datatype Delta = DeltaNone | DeltaAdd | DeltaUpdate | DeltaRemove

fun ComputeDelta :: "('r \<Rightarrow> 'r \<Rightarrow> bool) \<Rightarrow> 'r option \<Rightarrow> 'r option \<Rightarrow> Delta" where
  "ComputeDelta comparator None None = DeltaNone"
| "ComputeDelta comparator (Some desired) None = DeltaAdd"
| "ComputeDelta comparator None (Some existing) = DeltaRemove"
| "ComputeDelta comparator (Some desired) (Some existing) =
     (if comparator desired existing then DeltaNone else DeltaUpdate)"

fun HasChanges :: "Delta \<Rightarrow> bool" where
  "HasChanges DeltaNone = False"
| "HasChanges DeltaAdd = True"
| "HasChanges DeltaUpdate = True"
| "HasChanges DeltaRemove = True"

fun IsAdded :: "Delta \<Rightarrow> bool" where
  "IsAdded DeltaNone = False"
| "IsAdded DeltaAdd = True"
| "IsAdded DeltaUpdate = False"
| "IsAdded DeltaRemove = False"

fun IsUpdated :: "Delta \<Rightarrow> bool" where
  "IsUpdated DeltaNone = False"
| "IsUpdated DeltaAdd = False"
| "IsUpdated DeltaUpdate = True"
| "IsUpdated DeltaRemove = False"

fun IsRemoved :: "Delta \<Rightarrow> bool" where
  "IsRemoved DeltaNone = False"
| "IsRemoved DeltaAdd = False"
| "IsRemoved DeltaUpdate = False"
| "IsRemoved DeltaRemove = True"

text \<open>How many of the given conditions hold.\<close>

definition count_true :: "bool list \<Rightarrow> nat" where
  "count_true bs = length (filter (\<lambda>b. b) bs)"

section \<open>The object store\<close>

text \<open>
  Every call that leaves the reconciler is logged, in order: an auxiliary lookup (by the
  name of the collaborator), a point read, and the three mutations.
\<close>

datatype 'r store_call =
    LookupCall string
  | GetCall NamespacedName
  | CreateCall 'r
  | UpdateCall 'r
  | DeleteCall NamespacedName

fun is_mutation :: "'r store_call \<Rightarrow> bool" where
  "is_mutation (LookupCall n) = False"
| "is_mutation (GetCall k) = False"
| "is_mutation (CreateCall r) = True"
| "is_mutation (UpdateCall r) = True"
| "is_mutation (DeleteCall k) = True"

text \<open>
  Modelled from the spec: the store of section 6 (\<open>resources.AuthConfigStore\<close> and the
  controller-runtime client behind it are not among the sources). \<open>objs\<close> is what is
  persisted, by namespaced name; \<open>fault\<close> is the failure, if any, that the environment
  answers a call with (a network failure, a permission denial, a conflict raised by
  somebody else's write); \<open>revision\<close> numbers the writes and \<open>calls\<close> is the log.
\<close>

record 'r store =
  objs :: "NamespacedName \<Rightarrow> 'r option"
  fault :: "'r store_call \<Rightarrow> go_error option"
  revision :: nat
  calls :: "'r store_call list"

definition logged :: "'r store_call \<Rightarrow> ('r, 'z) store_scheme \<Rightarrow> ('r, 'z) store_scheme" where
  "logged c s = s\<lparr>calls := calls s @ [c]\<rparr>"

definition mutations :: "('r, 'z) store_scheme \<Rightarrow> 'r store_call list" where
  "mutations s = filter is_mutation (calls s)"

text \<open>
  \<open>Get\<close> reports a missing object as a NotFound status error, and returns no object
  together with an error.
\<close>

definition store_Get ::
  "('a ObjectMeta_scheme, 'z) store_scheme \<Rightarrow> NamespacedName \<Rightarrow>
     (go_error + 'a ObjectMeta_scheme) \<times> ('a ObjectMeta_scheme, 'z) store_scheme" where
  "store_Get s k =
     (let s' = logged (GetCall k) s in
      case fault s (GetCall k) of
        Some e \<Rightarrow> (Inl e, s')
      | None \<Rightarrow>
          (case objs s k of
             None \<Rightarrow> (Inl (StatusError NotFound (NamespacedName_String k)), s')
           | Some r \<Rightarrow> (Inr r, s')))"

definition store_Create ::
  "('a ObjectMeta_scheme, 'z) store_scheme \<Rightarrow> 'a ObjectMeta_scheme \<Rightarrow>
     go_error option \<times> ('a ObjectMeta_scheme, 'z) store_scheme" where
  "store_Create s obj =
     (let s' = logged (CreateCall obj) s in
      case fault s (CreateCall obj) of
        Some e \<Rightarrow> (Some e, s')
      | None \<Rightarrow>
          (case objs s (key_of obj) of
             Some cur \<Rightarrow> (Some (StatusError AlreadyExists (NamespacedName_String (key_of obj))), s')
           | None \<Rightarrow>
               (None, s'\<lparr>objs := (objs s)(key_of obj \<mapsto> obj\<lparr>ResourceVersion := Suc (revision s)\<rparr>),
                         revision := Suc (revision s)\<rparr>)))"

text \<open>
  An update names the version it was computed from; the store rejects it with a conflict
  when that is not the stored version (optimistic concurrency). Version 0 is unconditional.
\<close>

definition store_Update ::
  "('a ObjectMeta_scheme, 'z) store_scheme \<Rightarrow> 'a ObjectMeta_scheme \<Rightarrow>
     go_error option \<times> ('a ObjectMeta_scheme, 'z) store_scheme" where
  "store_Update s obj =
     (let s' = logged (UpdateCall obj) s in
      case fault s (UpdateCall obj) of
        Some e \<Rightarrow> (Some e, s')
      | None \<Rightarrow>
          (case objs s (key_of obj) of
             None \<Rightarrow> (Some (StatusError NotFound (NamespacedName_String (key_of obj))), s')
           | Some cur \<Rightarrow>
               if ResourceVersion obj \<noteq> 0 \<and> ResourceVersion obj \<noteq> ResourceVersion cur
               then (Some (StatusError Conflict (NamespacedName_String (key_of obj))), s')
               else (None, s'\<lparr>objs := (objs s)(key_of obj \<mapsto> obj\<lparr>ResourceVersion := Suc (revision s)\<rparr>),
                              revision := Suc (revision s)\<rparr>)))"

definition store_Delete ::
  "('r, 'z) store_scheme \<Rightarrow> NamespacedName \<Rightarrow> go_error option \<times> ('r, 'z) store_scheme" where
  "store_Delete s k =
     (let s' = logged (DeleteCall k) s in
      case fault s (DeleteCall k) of
        Some e \<Rightarrow> (Some e, s')
      | None \<Rightarrow>
          (case objs s k of
             None \<Rightarrow> (Some (StatusError NotFound (NamespacedName_String k)), s')
           | Some cur \<Rightarrow> (None, s'\<lparr>objs := (objs s)(k := None), revision := Suc (revision s)\<rparr>)))"


section \<open>The parent resource\<close>

text \<open>
  \<open>kservev1beta1.InferenceService\<close>, with the fields the controllers read:
  \<open>Spec.Predictor.Model\<close> (a pointer), its \<open>ModelFormat.Name\<close> and \<open>Runtime\<close> (a pointer to
  a string), and \<open>Status.URL\<close> (a pointer).
\<close>

record ModelSpec =
  ModelFormatName :: string
  Runtime :: "string option"

record InferenceService = ObjectMeta +
  Model :: "ModelSpec option"
  StatusURL :: "string option"

text \<open>
  \<open>ctrl.SetControllerReference(owner, object, scheme)\<close> belongs to the host platform. It
  either fails and leaves the object as it was, or replaces the object's owner references;
  it touches no other field. The reconcilers take it as a function from the owner, the
  object's namespace and the object's present references.
\<close>

type_synonym controller_ref =
  "InferenceService \<Rightarrow> string \<Rightarrow> OwnerReference list \<Rightarrow> go_error + OwnerReference list"

definition SetControllerReference ::
  "controller_ref \<Rightarrow> InferenceService \<Rightarrow> 'a ObjectMeta_scheme \<Rightarrow>
     go_error option \<times> 'a ObjectMeta_scheme" where
  "SetControllerReference scheme owner obj =
     (case scheme owner (Namespace obj) (OwnerReferences obj) of
        Inl e \<Rightarrow> (Some e, obj)
      | Inr refs \<Rightarrow> (None, obj\<lparr>OwnerReferences := refs\<rparr>))"

section \<open>KserveAuthConfigReconciler\<close>

text \<open>
  \<open>authorinov1beta2.AuthConfig\<close>: the metadata, the spec and the status. Of the spec the
  reconciler sets \<open>Hosts\<close>; \<open>Rules\<close> stands for the rest of it, which comes from the
  template (patterns, conditions, authentication, authorization, response, callbacks).
\<close>

record AuthConfigSpec =
  Hosts :: "string list"
  Rules :: string

record AuthConfig = ObjectMeta +
  acSpec :: AuthConfigSpec
  acStatus :: string

text \<open>
  The reconciler's collaborators, set by \<open>NewKserveAuthConfigReconciler\<close>. Their packages
  (\<open>resources\<close>, \<open>comparators\<close>) are not among the sources, so each is a parameter:
  the comparator of \<open>comparators.GetAuthConfigComparator()\<close>, \<open>detector.Detect\<close>,
  \<open>templateLoader.Load\<close>, \<open>hostExtractor.Extract\<close> and the scheme. The store is the state.
\<close>

record KserveAuthConfigReconciler =
  scheme :: controller_ref
  comparator :: "AuthConfig \<Rightarrow> AuthConfig \<Rightarrow> bool"
  detector :: "InferenceService \<Rightarrow> go_error + string"
  templateLoader :: "string \<Rightarrow> NamespacedName \<Rightarrow> go_error + AuthConfig"
  hostExtractor :: "InferenceService \<Rightarrow> string list"

definition createDesiredResource ::
  "KserveAuthConfigReconciler \<Rightarrow> InferenceService \<Rightarrow> AuthConfig store \<Rightarrow>
     (go_error + AuthConfig) \<times> AuthConfig store" where
  "createDesiredResource r isvc s =
     (let typeName = (Namespace isvc, Name isvc);
          s1 = logged (LookupCall ''Detect'') s in
      case detector r isvc of
        Inl err \<Rightarrow>
          (Inl (WithMessage err (''could not detect AuthType for InferenceService '' @
                  NamespacedName_String typeName)), s1)
      | Inr authType \<Rightarrow>
          (let s2 = logged (LookupCall ''Load'') s1 in
           case templateLoader r authType typeName of
             Inl err \<Rightarrow>
               (Inl (WithMessage err (''could not load template for AuthType '' @ authType @
                       '' for InferenceService '' @ NamespacedName_String typeName)), s2)
           | Inr template \<Rightarrow>
               (let t1 = template\<lparr>Name := snd typeName, Namespace := fst typeName\<rparr>;
                    t2 = t1\<lparr>acSpec := (acSpec t1)\<lparr>Hosts := hostExtractor r isvc\<rparr>\<rparr>;
                    t3 = (case Labels t2 of None \<Rightarrow> t2\<lparr>Labels := Some Map.empty\<rparr> | Some m \<Rightarrow> t2);
                    t4 = t3\<lparr>Labels := map_option
                            (\<lambda>m. m(''security.opendatahub.io/authorization-group'' \<mapsto> ''default''))
                            (Labels t3)\<rparr>;
                    t5 = snd (SetControllerReference (scheme r) isvc t4)
                in (Inr t5, s2))))"

definition getExistingResource ::
  "InferenceService \<Rightarrow> AuthConfig store \<Rightarrow> (go_error + AuthConfig) \<times> AuthConfig store" where
  "getExistingResource isvc s = store_Get s (Namespace isvc, Name isvc)"

text \<open>
  \<open>processDelta\<close>. A nil \<open>desiredState\<close> or \<open>existingState\<close> that a branch reads is a nil
  pointer dereference. The message of \<open>Wrapf\<close> names the desired (or existing) object twice,
  as the source does.
\<close>

definition processDelta ::
  "KserveAuthConfigReconciler \<Rightarrow> AuthConfig store \<Rightarrow> AuthConfig option \<Rightarrow> AuthConfig option \<Rightarrow>
     outcome \<times> AuthConfig store" where
  "processDelta r s desiredState existingState =
     (let delta = ComputeDelta (comparator r) desiredState existingState in
      if \<not> HasChanges delta then (Return None, s)
      else if IsAdded delta then
        (case desiredState of
           None \<Rightarrow> (Panic NilPointerDereference, s)
         | Some d \<Rightarrow>
             (let (err, s') = store_Create s d
              in (Return (Wrapf err (''could not store AuthConfig '' @ Name d @
                                      '' for InferenceService '' @ Name d)), s')))
      else if IsUpdated delta then
        (case (desiredState, existingState) of
           (Some d, Some e) \<Rightarrow>
             (let rp = e;
                  rp = rp\<lparr>acSpec := acSpec d\<rparr>;
                  rp = rp\<lparr>Labels := Labels d\<rparr>;
                  (err, s') = store_Update s rp
              in (Return (Wrapf err (''could not store AuthConfig '' @ Name d @
                                      '' for InferenceService '' @ Name d)), s'))
         | _ \<Rightarrow> (Panic NilPointerDereference, s))
      else if IsRemoved delta then
        (case existingState of
           None \<Rightarrow> (Panic NilPointerDereference, s)
         | Some e \<Rightarrow>
             (let (err, s') = store_Delete s (Namespace e, Name e)
              in (Return (Wrapf err (''could not remove AuthConfig '' @ Name e @
                                      '' for InferenceService '' @ Name e)), s')))
      else (Return None, s))"

text \<open>
  \<open>Reconcile\<close>. The store's \<open>Get\<close> returns no object with an error, so after a not-found
  error \<open>existingState\<close> is nil.
\<close>

definition Reconcile ::
  "KserveAuthConfigReconciler \<Rightarrow> InferenceService \<Rightarrow> AuthConfig store \<Rightarrow>
     outcome \<times> AuthConfig store" where
  "Reconcile r isvc s =
     (case StatusURL isvc of
        None \<Rightarrow> (Return None, s)
      | Some url \<Rightarrow>
          (case createDesiredResource r isvc s of
             (Inl err, s1) \<Rightarrow> (Return (Some err), s1)
           | (Inr desiredState, s1) \<Rightarrow>
               (case getExistingResource isvc s1 of
                  (Inl err, s2) \<Rightarrow>
                    if \<not> IsNotFound err then (Return (Some err), s2)
                    else processDelta r s2 (Some desiredState) None
                | (Inr existingState, s2) \<Rightarrow>
                    processDelta r s2 (Some desiredState) (Some existingState))))"

text \<open>\<open>Remove\<close>: the store's \<open>Remove\<close> under the parent's namespaced name.\<close>

definition Remove ::
  "KserveAuthConfigReconciler \<Rightarrow> InferenceService \<Rightarrow> AuthConfig store \<Rightarrow>
     outcome \<times> AuthConfig store" where
  "Remove r isvc s =
     (let (err, s') = store_Delete s (Namespace isvc, Name isvc) in (Return err, s'))"

section \<open>KserveMetricsDashboardReconciler\<close>

text \<open>What a call of a function with results \<open>(value, error)\<close> does.\<close>

datatype 'a result = Ok 'a | Err go_error | Panicked panic

record ConfigMap = ObjectMeta +
  Data :: "(string \<rightharpoonup> string) option"
  BinaryData :: "(string \<rightharpoonup> string) option"
  Immutable :: "bool option"

record Container =
  ContainerName :: string
  Image :: string

text \<open>\<open>kservev1alpha1.ServingRuntime\<close> with \<open>Spec.Containers\<close>.\<close>

record ServingRuntime = ObjectMeta +
  Containers :: "Container list"

text \<open>The value of \<open>&kservev1alpha1.ServingRuntime{}\<close>.\<close>

definition empty_ServingRuntime :: ServingRuntime where
  "empty_ServingRuntime =
     \<lparr>Name = [], Namespace = [], UID = [], ResourceVersion = 0, Labels = None,
      Annotations = None, OwnerReferences = [], Containers = []\<rparr>"

text \<open>
  The state of a pass: the store of ConfigMaps and the three package-level variables that
  cache the template files (\<open>None\<close> is a nil byte slice).
\<close>

record dashboard_state = "ConfigMap store" +
  tgisData :: "string option"
  ovmsData :: "string option"
  vllmData :: "string option"

text \<open>
  The reconciler's environment: the scheme of its client, the comparator of
  \<open>comparators.GetConfigMapComparator()\<close>, the client's read of a ServingRuntime,
  \<open>os.ReadFile\<close>, and the image names \<open>constants.Tgis\<close>, \<open>constants.Ovms\<close>,
  \<open>constants.Vllm\<close>, whose declarations are not among the sources.
\<close>

record KserveMetricsDashboardReconciler =
  clientScheme :: controller_ref
  configMapComparator :: "ConfigMap \<Rightarrow> ConfigMap \<Rightarrow> bool"
  getServingRuntime :: "NamespacedName \<Rightarrow> go_error + ServingRuntime"
  ReadFile :: "string \<Rightarrow> go_error + string"
  Tgis :: string
  Ovms :: string
  Vllm :: string

text \<open>
  \<open>extractImageName\<close>: the first submatch of the regular expression
  \<open>.*/(.+?)(:|@).*\<close>, or the empty string. A dot matches no newline, so a match lies
  within one line; the leftmost match starts at the beginning of the first line that has
  one. There the greedy \<open>.*/\<close> ends at the last slash after which a separator follows at
  least one character later, and the lazy group stops before the first such separator.
\<close>

definition is_separator :: "char \<Rightarrow> bool" where
  "is_separator c = (c = CHR '':'' \<or> c = CHR ''@'')"

fun lazy_group :: "string \<Rightarrow> string option" where
  "lazy_group [] = None"
| "lazy_group (c # cs) =
     (if list_ex is_separator cs then Some (c # takeWhile (\<lambda>x. \<not> is_separator x) cs) else None)"

fun match_line :: "string \<Rightarrow> string option" where
  "match_line [] = None"
| "match_line (c # cs) =
     (case match_line cs of
        Some g \<Rightarrow> Some g
      | None \<Rightarrow> if c = CHR ''/'' then lazy_group cs else None)"

fun split_lines :: "string \<Rightarrow> string \<Rightarrow> string list" where
  "split_lines acc [] = [rev acc]"
| "split_lines acc (c # cs) =
     (if c = CHR 0x0A then rev acc # split_lines [] cs else split_lines (c # acc) cs)"

fun first_match :: "string list \<Rightarrow> string option" where
  "first_match [] = None"
| "first_match (l # ls) = (case match_line l of Some g \<Rightarrow> Some g | None \<Rightarrow> first_match ls)"

definition extractImageName :: "string \<Rightarrow> string" where
  "extractImageName img = (case first_match (split_lines [] img) of Some g \<Rightarrow> g | None \<Rightarrow> [])"

text \<open>
  \<open>strings.Replace(s, old, new, -1)\<close> for a non-empty \<open>old\<close>: every occurrence, left to
  right, without overlap. The counter is the number of characters of a replaced
  occurrence still to skip.
\<close>

fun replace_from :: "string \<Rightarrow> string \<Rightarrow> nat \<Rightarrow> string \<Rightarrow> string" where
  "replace_from old new n [] = []"
| "replace_from old new (Suc n) (c # cs) = replace_from old new n cs"
| "replace_from old new 0 (c # cs) =
     (if take (length old) (c # cs) = old
      then new @ replace_from old new (length old - 1) cs
      else c # replace_from old new 0 cs)"

definition strings_Replace :: "string \<Rightarrow> string \<Rightarrow> string \<Rightarrow> string" where
  "strings_Replace s old new = replace_from old new 0 s"

definition substituteVariablesInQueries :: "string \<Rightarrow> string \<Rightarrow> string \<Rightarrow> string" where
  "substituteVariablesInQueries data namespace name =
     (let stringDatawithNS = strings_Replace data ''${namespace}'' namespace;
          stringDataComplete = strings_Replace stringDatawithNS ''${model_name}'' name
      in stringDataComplete)"

text \<open>
  One arm of the switch: read the file when the cache is nil (a failed read is logged and
  leaves it nil), then use the cache.
\<close>

definition cached_template :: "(string \<Rightarrow> go_error + string) \<Rightarrow> string \<Rightarrow> string option \<Rightarrow> string option" where
  "cached_template readFile path cache =
     (case cache of
        Some data \<Rightarrow> Some data
      | None \<Rightarrow> (case readFile path of Inl err \<Rightarrow> None | Inr data \<Rightarrow> Some data))"

definition template_for ::
  "KserveMetricsDashboardReconciler \<Rightarrow> string \<Rightarrow> dashboard_state \<Rightarrow> string option \<times> dashboard_state" where
  "template_for r runtimeImageName s =
     (if runtimeImageName = Tgis r then
        (let s' = s\<lparr>tgisData := cached_template (ReadFile r) ''tgis-metrics.json'' (tgisData s)\<rparr>
         in (tgisData s', s'))
      else if runtimeImageName = Ovms r then
        (let s' = s\<lparr>ovmsData := cached_template (ReadFile r) ''ovms-metrics.json'' (ovmsData s)\<rparr>
         in (ovmsData s', s'))
      else if runtimeImageName = Vllm r then
        (let s' = s\<lparr>vllmData := cached_template (ReadFile r) ''vllm-metrics.json'' (vllmData s)\<rparr>
         in (vllmData s', s'))
      else (None, s))"

text \<open>
  \<open>createDesiredResource\<close>. A failed read of the serving runtime is logged and the pass
  goes on with the empty runtime value. The index expression \<open>Containers[0]\<close> panics on an
  empty slice, and so do the two pointer reads before it on nil. The result of
  \<open>json.Unmarshal\<close> is only logged.
\<close>

definition createDesiredResource_dashboard ::
  "KserveMetricsDashboardReconciler \<Rightarrow> InferenceService \<Rightarrow> dashboard_state \<Rightarrow>
     ConfigMap result \<times> dashboard_state" where
  "createDesiredResource_dashboard r isvc s =
     (case Model isvc of
        None \<Rightarrow> (Panicked NilPointerDereference, s)
      | Some model \<Rightarrow>
          (case Runtime model of
             None \<Rightarrow> (Panicked NilPointerDereference, s)
           | Some isvcRuntime \<Rightarrow>
               (let s1 = logged (LookupCall ''ServingRuntime'') s;
                    runtime = (case getServingRuntime r (Namespace isvc, isvcRuntime) of
                                 Inl err \<Rightarrow> empty_ServingRuntime
                               | Inr found \<Rightarrow> found)
                in case Containers runtime of
                     [] \<Rightarrow> (Panicked IndexOutOfRange, s1)
                   | container # others \<Rightarrow>
                       (let runtimeImage = Image container;
                            runtimeImageName = extractImageName runtimeImage;
                            (templatedData, s2) = template_for r runtimeImageName s1;
                            data = substituteVariablesInQueries
                                     (case templatedData of None \<Rightarrow> [] | Some bytes \<Rightarrow> bytes)
                                     (Namespace isvc) (Name isvc);
                            configMap =
                              \<lparr>Name = Name isvc @ ''-metrics-dashboard'', Namespace = Namespace isvc,
                               UID = [], ResourceVersion = 0, Labels = None, Annotations = None,
                               OwnerReferences = [], Data = Some [''Data'' \<mapsto> data],
                               BinaryData = None, Immutable = None\<rparr>
                        in case SetControllerReference (clientScheme r) isvc configMap of
                             (Some err, c) \<Rightarrow> (Err err, s2)
                           | (None, c) \<Rightarrow> (Ok c, s2)))))"

text \<open>\<open>getExistingResource\<close>: not-found is a nil ConfigMap and a nil error.\<close>

definition getExistingResource_dashboard ::
  "InferenceService \<Rightarrow> dashboard_state \<Rightarrow> (go_error + ConfigMap option) \<times> dashboard_state" where
  "getExistingResource_dashboard isvc s =
     (case store_Get s (Namespace isvc, Name isvc @ ''-metrics-dashboard'') of
        (Inl err, s') \<Rightarrow> if IsNotFound err then (Inr None, s') else (Inl err, s')
      | (Inr configMap, s') \<Rightarrow> (Inr (Some configMap), s'))"

text \<open>
  \<open>processDelta\<close>: the three branches run one after the other; each returns only when its
  store call fails.
\<close>

definition added_step ::
  "Delta \<Rightarrow> ConfigMap option \<Rightarrow> dashboard_state \<Rightarrow> outcome \<times> dashboard_state" where
  "added_step delta desiredResource s =
     (if IsAdded delta then
        (case desiredResource of
           None \<Rightarrow> (Panic NilPointerDereference, s)
         | Some d \<Rightarrow> (let (err, s') = store_Create s d in (Return err, s')))
      else (Return None, s))"

definition updated_step ::
  "Delta \<Rightarrow> ConfigMap option \<Rightarrow> ConfigMap option \<Rightarrow> dashboard_state \<Rightarrow> outcome \<times> dashboard_state" where
  "updated_step delta desiredResource existingResource s =
     (if IsUpdated delta then
        (case (existingResource, desiredResource) of
           (Some e, Some d) \<Rightarrow>
             (let rp = e;
                  rp = rp\<lparr>Labels := Labels d\<rparr>;
                  rp = rp\<lparr>Data := Data d\<rparr>;
                  (err, s') = store_Update s rp
              in (Return err, s'))
         | _ \<Rightarrow> (Panic NilPointerDereference, s))
      else (Return None, s))"

definition removed_step ::
  "Delta \<Rightarrow> ConfigMap option \<Rightarrow> dashboard_state \<Rightarrow> outcome \<times> dashboard_state" where
  "removed_step delta existingResource s =
     (if IsRemoved delta then
        (case existingResource of
           None \<Rightarrow> (Panic NilPointerDereference, s)
         | Some e \<Rightarrow> (let (err, s') = store_Delete s (key_of e) in (Return err, s')))
      else (Return None, s))"

definition processDelta_dashboard ::
  "KserveMetricsDashboardReconciler \<Rightarrow> dashboard_state \<Rightarrow> ConfigMap option \<Rightarrow> ConfigMap option \<Rightarrow>
     outcome \<times> dashboard_state" where
  "processDelta_dashboard r s desiredResource existingResource =
     (let delta = ComputeDelta (configMapComparator r) desiredResource existingResource in
      if \<not> HasChanges delta then (Return None, s)
      else
        (case added_step delta desiredResource s of
           (Return None, s1) \<Rightarrow>
             (case updated_step delta desiredResource existingResource s1 of
                (Return None, s2) \<Rightarrow>
                  (case removed_step delta existingResource s2 of
                     (Return None, s3) \<Rightarrow> (Return None, s3)
                   | stopped \<Rightarrow> stopped)
              | stopped \<Rightarrow> stopped)
         | stopped \<Rightarrow> stopped))"

definition Reconcile_dashboard ::
  "KserveMetricsDashboardReconciler \<Rightarrow> InferenceService \<Rightarrow> dashboard_state \<Rightarrow>
     outcome \<times> dashboard_state" where
  "Reconcile_dashboard r isvc s =
     (case createDesiredResource_dashboard r isvc s of
        (Panicked p, s1) \<Rightarrow> (Panic p, s1)
      | (Err err, s1) \<Rightarrow> (Return (Some err), s1)
      | (Ok desiredResource, s1) \<Rightarrow>
          (case getExistingResource_dashboard isvc s1 of
             (Inl err, s2) \<Rightarrow> (Return (Some err), s2)
           | (Inr existingResource, s2) \<Rightarrow>
               processDelta_dashboard r s2 (Some desiredResource) existingResource))"

section \<open>KserveMonitoringReconciler\<close>

text \<open>
  \<open>PeerAuthentication\<close> (Istio) and \<open>NetworkPolicy\<close>: pointers and maps may be nil, a map
  from ports to pointers holds \<open>None\<close> for a nil pointer. \<open>Mode\<close> is the number of the
  enumeration (2 is PERMISSIVE, 3 is STRICT).
\<close>

record MutualTLS =
  Mode :: nat

record WorkloadSelector =
  MatchLabels :: "(string \<rightharpoonup> string) option"

record PeerAuthenticationSpec =
  Selector :: "WorkloadSelector option"
  Mtls :: "MutualTLS option"
  PortLevelMtls :: "(32 word \<rightharpoonup> MutualTLS option) option"

record PeerAuthentication = ObjectMeta +
  paSpec :: PeerAuthenticationSpec

record LabelSelector =
  selMatchLabels :: "(string \<rightharpoonup> string) option"

record NetworkPolicyPeer =
  NamespaceSelector :: "LabelSelector option"

record NetworkPolicyIngressRule =
  From :: "NetworkPolicyPeer list option"

record NetworkPolicy = ObjectMeta +
  Ingress :: "NetworkPolicyIngressRule list option"

text \<open>
  \<open>reflect.DeepEqual\<close> takes two values of type \<open>interface{}\<close>: a value together with its
  type. Values of distinct types are never deeply equal; values of one type are compared
  through pointers, maps and slices, a nil map or slice being equal only to a nil one.
\<close>

datatype go_value =
    ObjectMetaValue ObjectMeta
  | StringMapValue "(string \<rightharpoonup> string) option"
  | PortLevelMtlsValue "(32 word \<rightharpoonup> MutualTLS option) option"
  | IngressRulesValue "NetworkPolicyIngressRule list option"

definition DeepEqual :: "go_value \<Rightarrow> go_value \<Rightarrow> bool" where
  "DeepEqual x y = (x = y)"

text \<open>
  \<open>arePeerAuthsEqual\<close> and \<open>areNetworkPoliciesEqual\<close>, with the short circuit of \<open>&&\<close>:
  the second argument is read only when the first comparison holds.
\<close>

definition arePeerAuthsEqual ::
  "PeerAuthentication option \<Rightarrow> PeerAuthentication option \<Rightarrow> panic + bool" where
  "arePeerAuthsEqual desiredPeerAuth foundPeerAuth =
     (case desiredPeerAuth of
        None \<Rightarrow> Inl NilPointerDereference
      | Some d \<Rightarrow>
          if DeepEqual (ObjectMetaValue (ObjectMeta.truncate d)) (StringMapValue (Labels d))
          then (case foundPeerAuth of
                  None \<Rightarrow> Inl NilPointerDereference
                | Some f \<Rightarrow>
                    Inr (DeepEqual (PortLevelMtlsValue (PortLevelMtls (paSpec d)))
                                   (PortLevelMtlsValue (PortLevelMtls (paSpec f)))))
          else Inr False)"

definition areNetworkPoliciesEqual ::
  "NetworkPolicy option \<Rightarrow> NetworkPolicy option \<Rightarrow> panic + bool" where
  "areNetworkPoliciesEqual networkPolicy desiredNetWorkPolicy =
     (case (networkPolicy, desiredNetWorkPolicy) of
        (Some n, Some d) \<Rightarrow>
          Inr (DeepEqual (ObjectMetaValue (ObjectMeta.truncate n)) (StringMapValue (Labels d)) \<and>
               DeepEqual (IngressRulesValue (Ingress n)) (IngressRulesValue (Ingress d)))
      | _ \<Rightarrow> Inl NilPointerDereference)"

definition buildDesiredPeerAuth :: "string \<Rightarrow> string \<Rightarrow> string \<Rightarrow> PeerAuthentication" where
  "buildDesiredPeerAuth supportedFormat ns isvcName =
     (let desiredPeerAuth =
            \<lparr>Name = supportedFormat @ ''-metrics'', Namespace = ns, UID = [], ResourceVersion = 0,
             Labels = Some [''opendatahub.io/managed'' \<mapsto> ''true''], Annotations = None,
             OwnerReferences = [],
             paSpec = \<lparr>Selector = Some \<lparr>MatchLabels =
                          Some [''serving.knative.dev/service'' \<mapsto> isvcName @ ''predictor-default'']\<rparr>,
                       Mtls = Some \<lparr>Mode = 3\<rparr>,
                       PortLevelMtls = None\<rparr>\<rparr>
      in if supportedFormat = ''caikit''
         then desiredPeerAuth\<lparr>paSpec := (paSpec desiredPeerAuth)
                \<lparr>PortLevelMtls := Some [8086 \<mapsto> Some \<lparr>Mode = 2\<rparr>]\<rparr>\<rparr>
         else desiredPeerAuth)"

definition foundPeerAuth ::
  "PeerAuthentication store \<Rightarrow> string \<Rightarrow> string \<Rightarrow>
     (bool \<times> PeerAuthentication option \<times> go_error option) \<times> PeerAuthentication store" where
  "foundPeerAuth s supportedFormat ns =
     (case store_Get s (ns, supportedFormat @ ''-metrics'') of
        (Inl err, s') \<Rightarrow>
          if IsNotFound err then ((False, None, None), s') else ((False, None, Some err), s')
      | (Inr peerAuth, s') \<Rightarrow> ((True, Some peerAuth, None), s'))"

text \<open>
  \<open>createPeerAuth\<close> builds a client of its own from the environment; \<open>clientError\<close> is the
  failure of that, if any.
\<close>

definition createPeerAuth ::
  "go_error option \<Rightarrow> PeerAuthentication store \<Rightarrow> PeerAuthentication \<Rightarrow>
     go_error option \<times> PeerAuthentication store" where
  "createPeerAuth clientError s desiredPeerAuth =
     (case clientError of
        Some err \<Rightarrow> (Some err, s)
      | None \<Rightarrow> store_Create s desiredPeerAuth)"


text \<open>
  \<open>reconcilePeerAuthentication\<close>: the error of \<open>createPeerAuth\<close> is assigned and not
  returned. The request's namespace is \<open>ns\<close>.
\<close>

definition reconcilePeerAuthentication ::
  "go_error option \<Rightarrow> string \<Rightarrow> InferenceService \<Rightarrow> PeerAuthentication store \<Rightarrow>
     outcome \<times> PeerAuthentication store" where
  "reconcilePeerAuthentication clientError ns inferenceService s =
     (case Model inferenceService of
        None \<Rightarrow> (Panic NilPointerDereference, s)
      | Some model \<Rightarrow>
          if ModelFormatName model = ''caikit'' then
            (let desiredPeerAuth = buildDesiredPeerAuth ''caikit'' ns (Name inferenceService);
                 ((peerAuthExists, found, err), s1) = foundPeerAuth s ''caikit'' ns
             in case err of
                  Some e \<Rightarrow> (Return (Some e), s1)
                | None \<Rightarrow>
                    if peerAuthExists then (Return None, s1)
                    else (case arePeerAuthsEqual (Some desiredPeerAuth) found of
                            Inl p \<Rightarrow> (Panic p, s1)
                          | Inr equal \<Rightarrow>
                              if \<not> equal
                              then (Return None, snd (createPeerAuth clientError s1 desiredPeerAuth))
                              else (Return None, s1)))
          else (Return None, s))"

section \<open>Deployment mode (package utils)\<close>

type_synonym IsvcDeploymentMode = string

definition Serverless :: IsvcDeploymentMode where "Serverless = ''Serverless''"
definition RawDeployment :: IsvcDeploymentMode where "RawDeployment = ''RawDeployment''"
definition ModelMesh :: IsvcDeploymentMode where "ModelMesh = ''ModelMesh''"

definition inferenceServiceDeploymentModeAnnotation :: string where
  "inferenceServiceDeploymentModeAnnotation = ''serving.kserve.io/deploymentMode''"

definition KserveConfigMapName :: string where
  "KserveConfigMapName = ''inferenceservice-config''"

text \<open>Reading a map that may be nil: the value and whether the key exists.\<close>

definition map_index :: "('k \<rightharpoonup> 'v) option \<Rightarrow> 'k \<Rightarrow> 'v option" where
  "map_index m k = (case m of None \<Rightarrow> None | Some f \<Rightarrow> f k)"

definition IsDeploymentModeForIsvcModelMesh :: "InferenceService \<Rightarrow> bool" where
  "IsDeploymentModeForIsvcModelMesh isvc =
     (case map_index (Annotations isvc) inferenceServiceDeploymentModeAnnotation of
        Some v \<Rightarrow> v = ModelMesh
      | None \<Rightarrow> False)"

text \<open>
  What \<open>json.Unmarshal\<close> stores in a \<open>map[string]interface{}\<close>: nil, bool, float64 (kept
  as its literal), string, \<open>[]interface{}\<close> or \<open>map[string]interface{}\<close>.
\<close>

datatype json_value =
    JNull
  | JBool bool
  | JNumber string
  | JString string
  | JArray "json_value list"
  | JObject "(string \<times> json_value) list"

text \<open>
  A value of type \<open>interface{}\<close> is a dynamic type with a value of it. Besides the types
  the decoder produces there is the named type \<open>IsvcDeploymentMode\<close>.
\<close>

datatype interface_value =
    NilInterface
  | BoolValue bool
  | Float64Value string
  | StringValue string
  | SliceValue "json_value list"
  | MapValue "(string \<times> json_value) list"
  | IsvcDeploymentModeValue IsvcDeploymentMode

fun decoded :: "json_value \<Rightarrow> interface_value" where
  "decoded JNull = NilInterface"
| "decoded (JBool b) = BoolValue b"
| "decoded (JNumber n) = Float64Value n"
| "decoded (JString s) = StringValue s"
| "decoded (JArray xs) = SliceValue xs"
| "decoded (JObject kvs) = MapValue kvs"

text \<open>
  The comparison \<open>i == m\<close> of an interface value with a value of the non-interface type
  \<open>IsvcDeploymentMode\<close>: true when the dynamic type of \<open>i\<close> is identical to that type and
  the values are equal.
\<close>

fun equals_deployment_mode :: "interface_value \<Rightarrow> IsvcDeploymentMode \<Rightarrow> bool" where
  "equals_deployment_mode (IsvcDeploymentModeValue v) m = (v = m)"
| "equals_deployment_mode i m = False"

text \<open>
  \<open>strings.TrimSpace\<close> on ASCII white space (the file holds a namespace name; the white
  space outside ASCII that the library also trims is left out).
\<close>

definition is_space :: "char \<Rightarrow> bool" where
  "is_space c = (c \<in> set [CHR 0x09, CHR 0x0A, CHR 0x0B, CHR 0x0C, CHR 0x0D, CHR '' ''])"

definition TrimSpace :: "string \<Rightarrow> string" where
  "TrimSpace s = rev (dropWhile is_space (rev (dropWhile is_space s)))"

text \<open>
  The environment of \<open>GetDeploymentModeForIsvc\<close>: the result of \<open>os.ReadFile\<close> on the
  service account's namespace file, the client's \<open>Get\<close> of a ConfigMap, and
  \<open>json.Unmarshal\<close> into a \<open>map[string]interface{}\<close> (\<open>None\<close> is the nil map that the
  JSON text \<open>null\<close> leaves).
\<close>

record utils_env =
  namespaceFile :: "go_error + string"
  getConfigMap :: "NamespacedName \<Rightarrow> go_error + ConfigMap"
  json_Unmarshal :: "string \<Rightarrow> go_error + (string \<rightharpoonup> json_value) option"

definition GetOperatorNamespace :: "utils_env \<Rightarrow> string \<times> go_error option" where
  "GetOperatorNamespace env =
     (case namespaceFile env of
        Inr data \<Rightarrow> (let ns = TrimSpace data in if length ns > 0 then (ns, None) else ([], None))
      | Inl err \<Rightarrow> ([], Some err))"

definition GetDeploymentModeForIsvc ::
  "utils_env \<Rightarrow> InferenceService \<Rightarrow> IsvcDeploymentMode \<times> go_error option" where
  "GetDeploymentModeForIsvc env isvc =
     (case map_index (Annotations isvc) inferenceServiceDeploymentModeAnnotation of
        Some v \<Rightarrow>
          if v = ModelMesh then (ModelMesh, None)
          else if v = Serverless then (Serverless, None)
          else if v = RawDeployment then (RawDeployment, None)
          else ([], None)
      | None \<Rightarrow>
          (case GetOperatorNamespace env of
             (controllerNs, Some err) \<Rightarrow>
               ([], Some (WithMessage err
                  ''cannot determine controller namespace to retrive inferenceservice-config. ''))
           | (controllerNs, None) \<Rightarrow>
               (case getConfigMap env (controllerNs, KserveConfigMapName) of
                  Inl err \<Rightarrow>
                    ([], Some (WithMessage err ''error getting configmap 'inferenceservice-config'. ''))
                | Inr inferenceServiceConfigMap \<Rightarrow>
                    (case json_Unmarshal env
                            (case map_index (Data inferenceServiceConfigMap) ''deploy'' of
                               None \<Rightarrow> [] | Some text \<Rightarrow> text) of
                       Inl err \<Rightarrow>
                         ([], Some (WithMessage err
                            (''error retrieving value for key 'deploy' from configmap '' @
                             KserveConfigMapName @ ''. '')))
                     | Inr deployData \<Rightarrow>
                         (let defaultDeploymentMode =
                                (case map_index deployData ''defaultDeploymentMode'' of
                                   None \<Rightarrow> NilInterface
                                 | Some v \<Rightarrow> decoded v)
                          in if equals_deployment_mode defaultDeploymentMode Serverless
                             then (Serverless, None)
                             else (RawDeployment, None))))))"

section \<open>Example inputs\<close>

text \<open>
  Concrete stores, resources and collaborators on which the properties below are
  evaluated: an InferenceService \<open>demo/mnist\<close>, reconcilers whose comparators compare the
  owned fields, a store that holds nothing, one that holds a given object, one whose
  mutations all fail, one whose reads all fail and one that fails a single given call.
\<close>

definition empty_store :: "'r store" where
  "empty_store = \<lparr>objs = (\<lambda>k. None), fault = (\<lambda>c. None), revision = 0, calls = []\<rparr>"

definition failing_store :: "go_error \<Rightarrow> 'r store" where
  "failing_store e =
     \<lparr>objs = (\<lambda>k. None), fault = (\<lambda>c. if is_mutation c then Some e else None),
      revision = 0, calls = []\<rparr>"

definition unreadable_store :: "go_error \<Rightarrow> 'r store" where
  "unreadable_store e =
     \<lparr>objs = (\<lambda>k. None), fault = (\<lambda>c. case c of GetCall k \<Rightarrow> Some e | _ \<Rightarrow> None),
      revision = 0, calls = []\<rparr>"

definition store_holding :: "'a ObjectMeta_scheme \<Rightarrow> 'a ObjectMeta_scheme store" where
  "store_holding r =
     \<lparr>objs = (\<lambda>k. if k = key_of r then Some r else None), fault = (\<lambda>c. None),
      revision = ResourceVersion r, calls = []\<rparr>"

definition failing_on :: "'r store_call \<Rightarrow> go_error \<Rightarrow> 'r store \<Rightarrow> 'r store" where
  "failing_on c e s = s\<lparr>fault := (\<lambda>x. if x = c then Some e else None)\<rparr>"

definition conflict :: go_error where
  "conflict = StatusError Conflict ''the object has been modified''"

definition example_isvc :: InferenceService where
  "example_isvc =
     \<lparr>Name = ''mnist'', Namespace = ''demo'', UID = ''u-1'', ResourceVersion = 7, Labels = None,
      Annotations = None, OwnerReferences = [],
      Model = Some \<lparr>ModelFormatName = ''caikit'', Runtime = Some ''caikit-runtime''\<rparr>,
      StatusURL = Some ''https://mnist.demo.example''\<rparr>"

definition example_isvc_unknown_runtime :: InferenceService where
  "example_isvc_unknown_runtime =
     example_isvc\<lparr>Model := Some \<lparr>ModelFormatName = ''caikit'', Runtime = Some ''deleted-runtime''\<rparr>\<rparr>"

definition example_scheme :: controller_ref where
  "example_scheme owner ns refs =
     Inr [\<lparr>refKind = ''InferenceService'', refName = Name owner, refUID = UID owner,
           refController = True\<rparr>]"

definition example_template :: AuthConfig where
  "example_template =
     \<lparr>Name = [], Namespace = [], UID = [], ResourceVersion = 0, Labels = None,
      Annotations = None, OwnerReferences = [],
      acSpec = \<lparr>Hosts = [], Rules = ''kubernetes-token-review''\<rparr>, acStatus = []\<rparr>"

definition owned_fields_comparator :: "AuthConfig \<Rightarrow> AuthConfig \<Rightarrow> bool" where
  "owned_fields_comparator a b = (acSpec a = acSpec b \<and> Labels a = Labels b)"

definition example_reconciler :: KserveAuthConfigReconciler where
  "example_reconciler =
     \<lparr>scheme = example_scheme, comparator = owned_fields_comparator,
      detector = (\<lambda>isvc. Inr ''userdefined''),
      templateLoader = (\<lambda>authType typeName. Inr example_template),
      hostExtractor = (\<lambda>isvc. [''mnist.demo.example''])\<rparr>"

definition example_desired :: AuthConfig where
  "example_desired =
     \<lparr>Name = ''mnist'', Namespace = ''demo'', UID = [], ResourceVersion = 0,
      Labels = Some [''security.opendatahub.io/authorization-group'' \<mapsto> ''default''],
      Annotations = None,
      OwnerReferences = [\<lparr>refKind = ''InferenceService'', refName = ''mnist'', refUID = ''u-1'',
                           refController = True\<rparr>],
      acSpec = \<lparr>Hosts = [''mnist.demo.example''], Rules = ''kubernetes-token-review''\<rparr>,
      acStatus = []\<rparr>"

definition example_existing :: AuthConfig where
  "example_existing =
     \<lparr>Name = ''mnist'', Namespace = ''demo'', UID = ''u-9'', ResourceVersion = 4,
      Labels = Some [''security.opendatahub.io/authorization-group'' \<mapsto> ''default''],
      Annotations = Some [''edited-by'' \<mapsto> ''somebody''],
      OwnerReferences = [],
      acSpec = \<lparr>Hosts = [''old.demo.example''], Rules = ''kubernetes-token-review''\<rparr>,
      acStatus = ''Ready''\<rparr>"

definition example_merged :: AuthConfig where
  "example_merged = example_existing\<lparr>acSpec := acSpec example_desired, Labels := Labels example_desired\<rparr>"

definition example_in_sync :: AuthConfig where
  "example_in_sync = example_existing\<lparr>acSpec := acSpec example_desired\<rparr>"

definition example_runtime :: ServingRuntime where
  "example_runtime =
     \<lparr>Name = ''caikit-runtime'', Namespace = ''demo'', UID = ''u-2'', ResourceVersion = 3,
      Labels = None, Annotations = None, OwnerReferences = [],
      Containers = [\<lparr>ContainerName = ''kserve-container'',
                     Image = ''quay.io/opendatahub/text-generation-inference:stable''\<rparr>]\<rparr>"

definition owned_fields_comparator_dashboard :: "ConfigMap \<Rightarrow> ConfigMap \<Rightarrow> bool" where
  "owned_fields_comparator_dashboard a b = (Data a = Data b \<and> Labels a = Labels b)"

definition example_dashboard_reconciler :: KserveMetricsDashboardReconciler where
  "example_dashboard_reconciler =
     \<lparr>clientScheme = example_scheme, configMapComparator = owned_fields_comparator_dashboard,
      getServingRuntime = (\<lambda>k. if k = (''demo'', ''caikit-runtime'') then Inr example_runtime
                                else Inl (StatusError NotFound (NamespacedName_String k))),
      ReadFile = (\<lambda>path. Inr ''{ns=${namespace},model=${model_name}}''),
      Tgis = ''text-generation-inference'', Ovms = ''openvino_model_server'', Vllm = ''vllm''\<rparr>"

definition dashboard_state_of :: "ConfigMap store \<Rightarrow> dashboard_state" where
  "dashboard_state_of s = store.extend s \<lparr>tgisData = None, ovmsData = None, vllmData = None\<rparr>"

definition example_dashboard_desired :: ConfigMap where
  "example_dashboard_desired =
     \<lparr>Name = ''mnist-metrics-dashboard'', Namespace = ''demo'', UID = [], ResourceVersion = 0,
      Labels = None, Annotations = None,
      OwnerReferences = [\<lparr>refKind = ''InferenceService'', refName = ''mnist'', refUID = ''u-1'',
                           refController = True\<rparr>],
      Data = Some [''Data'' \<mapsto> ''{ns=demo,model=mnist}''], BinaryData = None, Immutable = None\<rparr>"

text \<open>
  The JSON object whose one member \<open>defaultDeploymentMode\<close> is the string \<open>Serverless\<close>;
  character 0x22 is the double quote.
\<close>

definition example_deploy_text :: string where
  "example_deploy_text =
     ''{'' @ [CHR 0x22] @ ''defaultDeploymentMode'' @ [CHR 0x22] @ '': '' @
     [CHR 0x22] @ ''Serverless'' @ [CHR 0x22] @ ''}''"

definition example_config :: ConfigMap where
  "example_config =
     \<lparr>Name = ''inferenceservice-config'', Namespace = ''opendatahub'', UID = ''u-3'',
      ResourceVersion = 11, Labels = None, Annotations = None, OwnerReferences = [],
      Data = Some [''deploy'' \<mapsto> example_deploy_text],
      BinaryData = None, Immutable = None\<rparr>"

definition example_env :: utils_env where
  "example_env =
     \<lparr>namespaceFile = Inr ''opendatahub'',
      getConfigMap = (\<lambda>k. if k = (''opendatahub'', ''inferenceservice-config'') then Inr example_config
                           else Inl (StatusError NotFound (NamespacedName_String k))),
      json_Unmarshal = (\<lambda>text. if text = example_deploy_text
                               then Inr (Some [''defaultDeploymentMode'' \<mapsto> JString ''Serverless''])
                               else Inl (ErrorString ''unexpected end of JSON input''))\<rparr>"

section \<open>Properties\<close>

subsection \<open>How the calls change the state\<close>

lemma logged_fields:
  "objs (logged c s) = objs s" "fault (logged c s) = fault s"
  "revision (logged c s) = revision s" "calls (logged c s) = calls s @ [c]"
  by (simp_all add: logged_def)

lemma mutations_logged:
  "mutations (logged c s) = (if is_mutation c then mutations s @ [c] else mutations s)"
  by (simp add: mutations_def logged_def)

lemma store_Get_state: "snd (store_Get s k) = logged (GetCall k) s"
  by (simp add: store_Get_def Let_def split: option.splits)

lemma createDesiredResource_frame:
  assumes "createDesiredResource r isvc s = (res, s1)"
  shows "objs s1 = objs s \<and> fault s1 = fault s \<and> revision s1 = revision s \<and>
         mutations s1 = mutations s"
  using assms
  by (auto simp add: createDesiredResource_def Let_def logged_fields mutations_logged
      split: sum.splits)

lemma getExistingResource_state:
  "getExistingResource isvc s = (res, s2) \<Longrightarrow> s2 = logged (GetCall (Namespace isvc, Name isvc)) s"
  using store_Get_state [of s "(Namespace isvc, Name isvc)"]
  by (simp add: getExistingResource_def)

lemma Reconcile_after_fetch:
  assumes "StatusURL isvc = Some url"
    and "createDesiredResource r isvc s = (Inr d, s1)"
    and "getExistingResource isvc s1 = (ex, s2)"
  shows "Reconcile r isvc s =
     (case ex of
        Inl err \<Rightarrow> if IsNotFound err then processDelta r s2 (Some d) None
                    else (Return (Some err), s2)
      | Inr e \<Rightarrow> processDelta r s2 (Some d) (Some e))"
  using assms by (simp add: Reconcile_def split: sum.splits)

lemma createDesiredResource_dashboard_frame:
  assumes "createDesiredResource_dashboard r isvc s = (res, s1)"
  shows "objs s1 = objs s \<and> fault s1 = fault s \<and> revision s1 = revision s \<and>
         mutations s1 = mutations s"
  using assms
  by (auto simp add: createDesiredResource_dashboard_def template_for_def Let_def logged_fields
      mutations_logged mutations_def
      split: option.splits list.splits prod.splits if_splits)

lemma getExistingResource_dashboard_state:
  "getExistingResource_dashboard isvc s = (res, s2) \<Longrightarrow>
     s2 = logged (GetCall (Namespace isvc, Name isvc @ ''-metrics-dashboard'')) s"
  using store_Get_state [of s "(Namespace isvc, Name isvc @ ''-metrics-dashboard'')"]
  by (auto simp add: getExistingResource_dashboard_def split: prod.splits sum.splits if_splits)

lemma Reconcile_dashboard_after_fetch:
  assumes "createDesiredResource_dashboard r isvc s = (Ok d, s1)"
    and "getExistingResource_dashboard isvc s1 = (ex, s2)"
  shows "Reconcile_dashboard r isvc s =
     (case ex of
        Inl err \<Rightarrow> (Return (Some err), s2)
      | Inr e \<Rightarrow> processDelta_dashboard r s2 (Some d) e)"
  using assms by (simp add: Reconcile_dashboard_def split: sum.splits)

lemma processDelta_dashboard_add:
  "processDelta_dashboard r s (Some d) None = (Return (fst (store_Create s d)), snd (store_Create s d))"
  by (cases "store_Create s d")
    (auto simp add: processDelta_dashboard_def added_step_def updated_step_def removed_step_def
      split: option.splits outcome.splits)

lemma processDelta_dashboard_update:
  assumes "\<not> configMapComparator r d e"
  shows "processDelta_dashboard r s (Some d) (Some e) =
     (Return (fst (store_Update s (e\<lparr>Labels := Labels d, Data := Data d\<rparr>))),
      snd (store_Update s (e\<lparr>Labels := Labels d, Data := Data d\<rparr>)))"
  using assms
  by (cases "store_Update s (e\<lparr>Labels := Labels d, Data := Data d\<rparr>)")
    (auto simp add: processDelta_dashboard_def added_step_def updated_step_def removed_step_def
      split: option.splits outcome.splits)

lemma processDelta_dashboard_remove:
  "processDelta_dashboard r s None (Some e) =
     (Return (fst (store_Delete s (key_of e))), snd (store_Delete s (key_of e)))"
  by (cases "store_Delete s (key_of e)")
    (auto simp add: processDelta_dashboard_def added_step_def updated_step_def removed_step_def
      split: option.splits outcome.splits)

lemma processDelta_dashboard_none:
  "ComputeDelta (configMapComparator r) desired existing = DeltaNone \<Longrightarrow>
     processDelta_dashboard r s desired existing = (Return None, s)"
  by (simp add: processDelta_dashboard_def)





lemma processDelta_create_fails:
  "fault s (CreateCall d) = Some e \<Longrightarrow>
     processDelta r s (Some d) None =
       (Return (Some (WithMessage e (''could not store AuthConfig '' @ Name d @
                                      '' for InferenceService '' @ Name d))),
        logged (CreateCall d) s)"
  by (simp add: processDelta_def store_Create_def Let_def)

lemma processDelta_update_fails:
  "\<not> comparator r d x \<Longrightarrow>
   fault s (UpdateCall (x\<lparr>acSpec := acSpec d, Labels := Labels d\<rparr>)) = Some e \<Longrightarrow>
     processDelta r s (Some d) (Some x) =
       (Return (Some (WithMessage e (''could not store AuthConfig '' @ Name d @
                                      '' for InferenceService '' @ Name d))),
        logged (UpdateCall (x\<lparr>acSpec := acSpec d, Labels := Labels d\<rparr>)) s)"
  by (simp add: processDelta_def store_Update_def Let_def)

lemma processDelta_delete_fails:
  "fault s (DeleteCall (Namespace x, Name x)) = Some e \<Longrightarrow>
     processDelta r s None (Some x) =
       (Return (Some (WithMessage e (''could not remove AuthConfig '' @ Name x @
                                      '' for InferenceService '' @ Name x))),
        logged (DeleteCall (Namespace x, Name x)) s)"
  by (simp add: processDelta_def store_Delete_def Let_def)

lemma processDelta_dashboard_create_fails:
  "fault t (CreateCall d) = Some e \<Longrightarrow>
     processDelta_dashboard r t (Some d) None = (Return (Some e), logged (CreateCall d) t)"
  by (simp add: processDelta_dashboard_add store_Create_def Let_def)

lemma processDelta_dashboard_update_fails:
  "\<not> configMapComparator r d x \<Longrightarrow>
   fault t (UpdateCall (x\<lparr>Labels := Labels d, Data := Data d\<rparr>)) = Some e \<Longrightarrow>
     processDelta_dashboard r t (Some d) (Some x) =
       (Return (Some e), logged (UpdateCall (x\<lparr>Labels := Labels d, Data := Data d\<rparr>)) t)"
  by (simp add: processDelta_dashboard_update store_Update_def Let_def)

lemma processDelta_dashboard_delete_fails:
  "fault t (DeleteCall (key_of x)) = Some e \<Longrightarrow>
     processDelta_dashboard r t None (Some x) = (Return (Some e), logged (DeleteCall (key_of x)) t)"
  by (simp add: processDelta_dashboard_remove store_Delete_def Let_def)

lemma Reconcile_create_fails:
  assumes "StatusURL isvc = Some url"
    and b: "createDesiredResource r isvc s = (Inr d, s1)"
    and g: "getExistingResource isvc s1 = (Inl err, s2)"
    and "IsNotFound err"
    and f: "fault s (CreateCall d) = Some e"
  shows "Reconcile r isvc s =
       (Return (Some (WithMessage e (''could not store AuthConfig '' @ Name d @
                                      '' for InferenceService '' @ Name d))),
        logged (CreateCall d) s2) \<and>
     mutations (logged (CreateCall d) s2) = mutations s @ [CreateCall d] \<and>
     objs (logged (CreateCall d) s2) = objs s"
proof -
  from b have f1: "mutations s1 = mutations s" "objs s1 = objs s" "fault s1 = fault s"
    using createDesiredResource_frame [of r isvc s "Inr d" s1] by simp_all
  from g have f2: "s2 = logged (GetCall (Namespace isvc, Name isvc)) s1"
    by (rule getExistingResource_state)
  from f1 f2 have f3: "mutations s2 = mutations s" "objs s2 = objs s" "fault s2 = fault s"
    by (simp_all add: mutations_logged logged_fields)
  from assms have "Reconcile r isvc s = processDelta r s2 (Some d) None"
    using Reconcile_after_fetch [of isvc url r s d s1 "Inl err" s2] by simp
  with f f3 show ?thesis
    by (simp add: processDelta_create_fails mutations_logged logged_fields)
qed

lemma Reconcile_update_fails:
  assumes "StatusURL isvc = Some url"
    and b: "createDesiredResource r isvc s = (Inr d, s1)"
    and g: "getExistingResource isvc s1 = (Inr x, s2)"
    and c: "\<not> comparator r d x"
    and f: "fault s (UpdateCall (x\<lparr>acSpec := acSpec d, Labels := Labels d\<rparr>)) = Some e"
  shows "Reconcile r isvc s =
       (Return (Some (WithMessage e (''could not store AuthConfig '' @ Name d @
                                      '' for InferenceService '' @ Name d))),
        logged (UpdateCall (x\<lparr>acSpec := acSpec d, Labels := Labels d\<rparr>)) s2) \<and>
     mutations (logged (UpdateCall (x\<lparr>acSpec := acSpec d, Labels := Labels d\<rparr>)) s2) =
       mutations s @ [UpdateCall (x\<lparr>acSpec := acSpec d, Labels := Labels d\<rparr>)] \<and>
     objs (logged (UpdateCall (x\<lparr>acSpec := acSpec d, Labels := Labels d\<rparr>)) s2) = objs s"
proof -
  from b have f1: "mutations s1 = mutations s" "objs s1 = objs s" "fault s1 = fault s"
    using createDesiredResource_frame [of r isvc s "Inr d" s1] by simp_all
  from g have f2: "s2 = logged (GetCall (Namespace isvc, Name isvc)) s1"
    by (rule getExistingResource_state)
  from f1 f2 have f3: "mutations s2 = mutations s" "objs s2 = objs s" "fault s2 = fault s"
    by (simp_all add: mutations_logged logged_fields)
  from assms have "Reconcile r isvc s = processDelta r s2 (Some d) (Some x)"
    using Reconcile_after_fetch [of isvc url r s d s1 "Inr x" s2] by simp
  with f f3 c show ?thesis
    by (simp add: processDelta_update_fails mutations_logged logged_fields)
qed

lemma Reconcile_dashboard_create_fails:
  assumes b: "createDesiredResource_dashboard r isvc t = (Ok d, t1)"
    and g: "getExistingResource_dashboard isvc t1 = (Inr None, t2)"
    and f: "fault t (CreateCall d) = Some e"
  shows "Reconcile_dashboard r isvc t = (Return (Some e), logged (CreateCall d) t2) \<and>
     mutations (logged (CreateCall d) t2) = mutations t @ [CreateCall d] \<and>
     objs (logged (CreateCall d) t2) = objs t"
proof -
  from b have f1: "mutations t1 = mutations t" "objs t1 = objs t" "fault t1 = fault t"
    using createDesiredResource_dashboard_frame [of r isvc t "Ok d" t1] by simp_all
  from g have f2: "t2 = logged (GetCall (Namespace isvc, Name isvc @ ''-metrics-dashboard'')) t1"
    by (rule getExistingResource_dashboard_state)
  from f1 f2 have f3: "mutations t2 = mutations t" "objs t2 = objs t" "fault t2 = fault t"
    by (simp_all add: mutations_logged logged_fields)
  from b g have "Reconcile_dashboard r isvc t = processDelta_dashboard r t2 (Some d) None"
    using Reconcile_dashboard_after_fetch [of r isvc t d t1 "Inr None" t2] by simp
  with f f3 show ?thesis
    by (simp add: processDelta_dashboard_create_fails mutations_logged logged_fields)
qed

lemma Reconcile_dashboard_update_fails:
  assumes b: "createDesiredResource_dashboard r isvc t = (Ok d, t1)"
    and g: "getExistingResource_dashboard isvc t1 = (Inr (Some x), t2)"
    and c: "\<not> configMapComparator r d x"
    and f: "fault t (UpdateCall (x\<lparr>Labels := Labels d, Data := Data d\<rparr>)) = Some e"
  shows "Reconcile_dashboard r isvc t =
       (Return (Some e), logged (UpdateCall (x\<lparr>Labels := Labels d, Data := Data d\<rparr>)) t2) \<and>
     mutations (logged (UpdateCall (x\<lparr>Labels := Labels d, Data := Data d\<rparr>)) t2) =
       mutations t @ [UpdateCall (x\<lparr>Labels := Labels d, Data := Data d\<rparr>)] \<and>
     objs (logged (UpdateCall (x\<lparr>Labels := Labels d, Data := Data d\<rparr>)) t2) = objs t"
proof -
  from b have f1: "mutations t1 = mutations t" "objs t1 = objs t" "fault t1 = fault t"
    using createDesiredResource_dashboard_frame [of r isvc t "Ok d" t1] by simp_all
  from g have f2: "t2 = logged (GetCall (Namespace isvc, Name isvc @ ''-metrics-dashboard'')) t1"
    by (rule getExistingResource_dashboard_state)
  from f1 f2 have f3: "mutations t2 = mutations t" "objs t2 = objs t" "fault t2 = fault t"
    by (simp_all add: mutations_logged logged_fields)
  from b g have "Reconcile_dashboard r isvc t = processDelta_dashboard r t2 (Some d) (Some x)"
    using Reconcile_dashboard_after_fetch [of r isvc t d t1 "Inr (Some x)" t2] by simp
  with f f3 c show ?thesis
    by (simp add: processDelta_dashboard_update_fails mutations_logged logged_fields)
qed

lemma decoded_never_mode: "\<not> equals_deployment_mode (decoded v) m"
  by (cases v) simp_all

subsection \<open>The example inputs, evaluated\<close>

lemma example_isvc_fields:
  "StatusURL example_isvc = Some ''https://mnist.demo.example''"
  "Namespace example_isvc = ''demo''" "Name example_isvc = ''mnist''"
  by (simp_all add: example_isvc_def)

lemma example_comparator: "comparator example_reconciler = owned_fields_comparator"
  by (simp add: example_reconciler_def)

lemma example_build:
  "createDesiredResource example_reconciler example_isvc s =
     (Inr example_desired, logged (LookupCall ''Load'') (logged (LookupCall ''Detect'') s))"
  by (simp add: createDesiredResource_def example_isvc_def example_reconciler_def
      example_template_def SetControllerReference_def example_scheme_def example_desired_def
      Let_def)

lemma example_delta_update:
  "ComputeDelta (comparator example_reconciler) (Some example_desired) (Some example_existing) = DeltaUpdate"
  by (simp add: example_reconciler_def owned_fields_comparator_def example_desired_def
      example_existing_def)

lemma example_fetch_in_sync:
  "getExistingResource example_isvc
     (logged (LookupCall ''Load'') (logged (LookupCall ''Detect'') (store_holding example_in_sync)))
   = (Inr example_in_sync,
      logged (GetCall (''demo'', ''mnist''))
        (logged (LookupCall ''Load'') (logged (LookupCall ''Detect'') (store_holding example_in_sync))))"
  by (simp add: getExistingResource_def store_Get_def logged_def store_holding_def key_of_def
      example_isvc_def example_in_sync_def example_existing_def Let_def)

lemma example_fetch_holding:
  "c \<noteq> GetCall (''demo'', ''mnist'') \<Longrightarrow>
   getExistingResource example_isvc
     (logged (LookupCall ''Load'') (logged (LookupCall ''Detect'')
        (failing_on c e (store_holding example_existing))))
   = (Inr example_existing,
      logged (GetCall (''demo'', ''mnist''))
        (logged (LookupCall ''Load'') (logged (LookupCall ''Detect'')
           (failing_on c e (store_holding example_existing)))))"
  by (simp add: getExistingResource_def store_Get_def logged_def store_holding_def key_of_def
      failing_on_def example_isvc_fields example_existing_def Let_def)

lemma example_fetch_unreadable:
  "getExistingResource example_isvc
     (logged (LookupCall ''Load'') (logged (LookupCall ''Detect'') (unreadable_store e)))
   = (Inl e,
      logged (GetCall (''demo'', ''mnist''))
        (logged (LookupCall ''Load'') (logged (LookupCall ''Detect'') (unreadable_store e))))"
  by (simp add: getExistingResource_def store_Get_def logged_def unreadable_store_def
      example_isvc_def Let_def)

lemma example_image: "extractImageName ''quay.io/opendatahub/text-generation-inference:stable'' = ''text-generation-inference''"
  by (simp add: extractImageName_def is_separator_def)

lemma example_subst: "substituteVariablesInQueries ''{ns=${namespace},model=${model_name}}'' ''demo'' ''mnist'' = ''{ns=demo,model=mnist}''"
  by (simp add: substituteVariablesInQueries_def strings_Replace_def)

lemma example_dashboard_build:
  "fst (createDesiredResource_dashboard example_dashboard_reconciler example_isvc (dashboard_state_of empty_store))
     = Ok example_dashboard_desired"
  by (simp add: createDesiredResource_dashboard_def example_dashboard_reconciler_def
      example_isvc_def example_runtime_def example_image example_subst template_for_def
      cached_template_def SetControllerReference_def example_scheme_def
      example_dashboard_desired_def dashboard_state_of_def empty_store_def store.extend_def
      logged_def Let_def)

lemma example_dashboard_reconcile:
  "fst (Reconcile_dashboard example_dashboard_reconciler example_isvc (dashboard_state_of empty_store))
     = Return None \<and>
   mutations (snd (Reconcile_dashboard example_dashboard_reconciler example_isvc (dashboard_state_of empty_store)))
     = [CreateCall example_dashboard_desired]"
  by (simp add: Reconcile_dashboard_def createDesiredResource_dashboard_def example_dashboard_reconciler_def
      example_isvc_def example_runtime_def example_image example_subst template_for_def
      cached_template_def SetControllerReference_def example_scheme_def
      example_dashboard_desired_def dashboard_state_of_def empty_store_def store.extend_def
      getExistingResource_dashboard_def store_Get_def processDelta_dashboard_add store_Create_def
      mutations_def key_of_def
      logged_def Let_def)

lemma example_fetch_absent:
  "getExistingResource example_isvc
     (logged (LookupCall ''Load'') (logged (LookupCall ''Detect'') empty_store))
   = (Inl (StatusError NotFound ''demo/mnist''),
      logged (GetCall (''demo'', ''mnist''))
        (logged (LookupCall ''Load'') (logged (LookupCall ''Detect'') empty_store)))"
  by (simp add: getExistingResource_def store_Get_def logged_def empty_store_def
      example_isvc_fields NamespacedName_String_def Let_def)

lemma example_add:
  "processDelta example_reconciler
     (logged (GetCall (''demo'', ''mnist''))
        (logged (LookupCall ''Load'') (logged (LookupCall ''Detect'') empty_store)))
     (Some example_desired) None =
   (Return None,
    \<lparr>objs = (\<lambda>k. None)((''demo'', ''mnist'') \<mapsto> example_desired\<lparr>ResourceVersion := 1\<rparr>),
     fault = (\<lambda>c. None), revision = 1,
     calls = [LookupCall ''Detect'', LookupCall ''Load'', GetCall (''demo'', ''mnist''),
              CreateCall example_desired]\<rparr>)"
  by (simp add: processDelta_def store_Create_def logged_def empty_store_def key_of_def
      example_desired_def Let_def)

subsection \<open>The monitoring controller's pass\<close>



lemma reconcilePeerAuthentication_drops_create_error:
  assumes "Model isvc = Some m" and "ModelFormatName m = ''caikit''"
    and "store_Get s (ns, ''caikit-metrics'') = (Inl err, s1)" and "IsNotFound err"
  shows "fst (reconcilePeerAuthentication clientError ns isvc s) = Return None"
  using assms
  by (simp add: reconcilePeerAuthentication_def foundPeerAuth_def arePeerAuthsEqual_def
      DeepEqual_def Let_def)

subsection \<open>The claims\<close>

text \<open>
  C1 (totality of the delta processor). For every desired and existing value, present or
  absent, and every comparator, ComputeDelta returns the kind of the case table of section
  4.2: absent/absent is no-change, present/absent is add, absent/present is remove,
  present/present is no-change when the comparator reports equal and update otherwise;
  and on every Delta it returns exactly one of the four accessors (no change, IsAdded,
  IsUpdated, IsRemoved) holds.
\<close>

theorem ComputeDelta_case_table:
  "ComputeDelta cmp None None = DeltaNone \<and>
   ComputeDelta cmp (Some d) None = DeltaAdd \<and>
   ComputeDelta cmp None (Some e) = DeltaRemove \<and>
   ComputeDelta cmp (Some d) (Some e) = (if cmp d e then DeltaNone else DeltaUpdate) \<and>
   count_true [\<not> HasChanges (ComputeDelta cmp desired existing),
               IsAdded (ComputeDelta cmp desired existing),
               IsUpdated (ComputeDelta cmp desired existing),
               IsRemoved (ComputeDelta cmp desired existing)] = 1"
proof -
  have "count_true [\<not> HasChanges \<delta>, IsAdded \<delta>, IsUpdated \<delta>, IsRemoved \<delta>] = 1" for \<delta>
    by (cases \<delta>) (simp_all add: count_true_def)
  then show ?thesis by simp
qed

theorem ComputeDelta_case_table_witness:
  "ComputeDelta (\<lambda>a b. a = b) (Some (1::nat)) (Some 2) = DeltaUpdate \<and>
   ComputeDelta (\<lambda>a b. a = b) (Some (1::nat)) (Some 1) = DeltaNone \<and>
   IsUpdated (ComputeDelta (\<lambda>a b. a = b) (Some (1::nat)) (Some 2))"
  using ComputeDelta_case_table [of "\<lambda>a b. a = b" "1::nat" "2" "Some 1" "Some 2"]
    ComputeDelta_case_table [of "\<lambda>a b. a = b" "1::nat" "1" "Some 1" "Some 1"]
  by simp



text \<open>
  C3, as stated, fails for the AuthConfig reconciler: when the store's Create fails with a
  conflict, Reconcile returns the error built by \<open>errors.Wrapf\<close>, which is not the store's
  error.
\<close>

theorem authconfig_apply_error_is_wrapped:
  "fault (failing_store conflict) (CreateCall example_desired) = Some conflict \<and>
   fst (Reconcile example_reconciler example_isvc (failing_store conflict)) =
     Return (Some (WithMessage conflict
       ''could not store AuthConfig mnist for InferenceService mnist'')) \<and>
   fst (Reconcile example_reconciler example_isvc (failing_store conflict)) \<noteq>
     Return (Some conflict)"
  by (simp add: Reconcile_def example_build getExistingResource_def processDelta_def
      store_Get_def store_Create_def failing_store_def logged_def example_isvc_fields
      example_desired_def key_of_def Let_def NamespacedName_String_def conflict_def
      example_comparator)

text \<open>
  C3, amended. When the store fails the mutation that the apply step issues with an error
  \<open>e\<close>, that call is the only mutation of the pass (no retry) and the store's objects are
  as they were. The metrics dashboard reconciler returns \<open>e\<close> itself. The AuthConfig
  reconciler returns \<open>e\<close> wrapped by \<open>errors.Wrapf\<close>: with the message
  \<open>could not store AuthConfig N for InferenceService N\<close> for a failed create or update (N the
  desired AuthConfig's name) and \<open>could not remove AuthConfig N for InferenceService N\<close> for
  a failed delete (N the existing one's name). Stated for processDelta on each of the three
  calls and for Reconcile on create and update; Reconcile always passes a desired resource,
  so it does not reach the delete.
\<close>

theorem failed_apply_returns_store_error:
  "(fault s (CreateCall d) = Some e \<longrightarrow>
      processDelta r s (Some d) None =
        (Return (Some (WithMessage e (''could not store AuthConfig '' @ Name d @
                                       '' for InferenceService '' @ Name d))),
         logged (CreateCall d) s)) \<and>
   (\<not> comparator r d x \<and>
    fault s (UpdateCall (x\<lparr>acSpec := acSpec d, Labels := Labels d\<rparr>)) = Some e \<longrightarrow>
      processDelta r s (Some d) (Some x) =
        (Return (Some (WithMessage e (''could not store AuthConfig '' @ Name d @
                                       '' for InferenceService '' @ Name d))),
         logged (UpdateCall (x\<lparr>acSpec := acSpec d, Labels := Labels d\<rparr>)) s)) \<and>
   (fault s (DeleteCall (Namespace x, Name x)) = Some e \<longrightarrow>
      processDelta r s None (Some x) =
        (Return (Some (WithMessage e (''could not remove AuthConfig '' @ Name x @
                                       '' for InferenceService '' @ Name x))),
         logged (DeleteCall (Namespace x, Name x)) s)) \<and>
   (StatusURL isvc = Some url \<and> createDesiredResource r isvc s = (Inr d, s1) \<and>
    getExistingResource isvc s1 = (Inl err, s2) \<and> IsNotFound err \<and>
    fault s (CreateCall d) = Some e \<longrightarrow>
      Reconcile r isvc s =
        (Return (Some (WithMessage e (''could not store AuthConfig '' @ Name d @
                                       '' for InferenceService '' @ Name d))),
         logged (CreateCall d) s2) \<and>
      mutations (logged (CreateCall d) s2) = mutations s @ [CreateCall d] \<and>
      objs (logged (CreateCall d) s2) = objs s) \<and>
   (StatusURL isvc = Some url \<and> createDesiredResource r isvc s = (Inr d, s1) \<and>
    getExistingResource isvc s1 = (Inr x, s2) \<and> \<not> comparator r d x \<and>
    fault s (UpdateCall (x\<lparr>acSpec := acSpec d, Labels := Labels d\<rparr>)) = Some e \<longrightarrow>
      Reconcile r isvc s =
        (Return (Some (WithMessage e (''could not store AuthConfig '' @ Name d @
                                       '' for InferenceService '' @ Name d))),
         logged (UpdateCall (x\<lparr>acSpec := acSpec d, Labels := Labels d\<rparr>)) s2) \<and>
      mutations (logged (UpdateCall (x\<lparr>acSpec := acSpec d, Labels := Labels d\<rparr>)) s2) =
        mutations s @ [UpdateCall (x\<lparr>acSpec := acSpec d, Labels := Labels d\<rparr>)] \<and>
      objs (logged (UpdateCall (x\<lparr>acSpec := acSpec d, Labels := Labels d\<rparr>)) s2) = objs s) \<and>
   (fault t (CreateCall d') = Some e \<longrightarrow>
      processDelta_dashboard r' t (Some d') None = (Return (Some e), logged (CreateCall d') t)) \<and>
   (\<not> configMapComparator r' d' x' \<and>
    fault t (UpdateCall (x'\<lparr>Labels := Labels d', Data := Data d'\<rparr>)) = Some e \<longrightarrow>
      processDelta_dashboard r' t (Some d') (Some x') =
        (Return (Some e), logged (UpdateCall (x'\<lparr>Labels := Labels d', Data := Data d'\<rparr>)) t)) \<and>
   (fault t (DeleteCall (key_of x')) = Some e \<longrightarrow>
      processDelta_dashboard r' t None (Some x') =
        (Return (Some e), logged (DeleteCall (key_of x')) t)) \<and>
   (createDesiredResource_dashboard r' isvc' t = (Ok d', t1) \<and>
    getExistingResource_dashboard isvc' t1 = (Inr None, t2) \<and>
    fault t (CreateCall d') = Some e \<longrightarrow>
      Reconcile_dashboard r' isvc' t = (Return (Some e), logged (CreateCall d') t2) \<and>
      mutations (logged (CreateCall d') t2) = mutations t @ [CreateCall d'] \<and>
      objs (logged (CreateCall d') t2) = objs t) \<and>
   (createDesiredResource_dashboard r' isvc' t = (Ok d', t1) \<and>
    getExistingResource_dashboard isvc' t1 = (Inr (Some x'), t2) \<and>
    \<not> configMapComparator r' d' x' \<and>
    fault t (UpdateCall (x'\<lparr>Labels := Labels d', Data := Data d'\<rparr>)) = Some e \<longrightarrow>
      Reconcile_dashboard r' isvc' t =
        (Return (Some e), logged (UpdateCall (x'\<lparr>Labels := Labels d', Data := Data d'\<rparr>)) t2) \<and>
      mutations (logged (UpdateCall (x'\<lparr>Labels := Labels d', Data := Data d'\<rparr>)) t2) =
        mutations t @ [UpdateCall (x'\<lparr>Labels := Labels d', Data := Data d'\<rparr>)] \<and>
      objs (logged (UpdateCall (x'\<lparr>Labels := Labels d', Data := Data d'\<rparr>)) t2) = objs t)"
proof -
  have a1: "fault s (CreateCall d) = Some e \<longrightarrow>
      processDelta r s (Some d) None =
        (Return (Some (WithMessage e (''could not store AuthConfig '' @ Name d @
                                       '' for InferenceService '' @ Name d))),
         logged (CreateCall d) s)"
    using processDelta_create_fails [of s d e r] by blast
  have a2: "\<not> comparator r d x \<and>
    fault s (UpdateCall (x\<lparr>acSpec := acSpec d, Labels := Labels d\<rparr>)) = Some e \<longrightarrow>
      processDelta r s (Some d) (Some x) =
        (Return (Some (WithMessage e (''could not store AuthConfig '' @ Name d @
                                       '' for InferenceService '' @ Name d))),
         logged (UpdateCall (x\<lparr>acSpec := acSpec d, Labels := Labels d\<rparr>)) s)"
    using processDelta_update_fails [of r d x s e] by blast
  have a3: "fault s (DeleteCall (Namespace x, Name x)) = Some e \<longrightarrow>
      processDelta r s None (Some x) =
        (Return (Some (WithMessage e (''could not remove AuthConfig '' @ Name x @
                                       '' for InferenceService '' @ Name x))),
         logged (DeleteCall (Namespace x, Name x)) s)"
    using processDelta_delete_fails [of s x e r] by blast
  have a4: "StatusURL isvc = Some url \<and> createDesiredResource r isvc s = (Inr d, s1) \<and>
    getExistingResource isvc s1 = (Inl err, s2) \<and> IsNotFound err \<and>
    fault s (CreateCall d) = Some e \<longrightarrow>
      Reconcile r isvc s =
        (Return (Some (WithMessage e (''could not store AuthConfig '' @ Name d @
                                       '' for InferenceService '' @ Name d))),
         logged (CreateCall d) s2) \<and>
      mutations (logged (CreateCall d) s2) = mutations s @ [CreateCall d] \<and>
      objs (logged (CreateCall d) s2) = objs s"
    using Reconcile_create_fails [of isvc url r s d s1 err s2 e] by blast
  have a5: "StatusURL isvc = Some url \<and> createDesiredResource r isvc s = (Inr d, s1) \<and>
    getExistingResource isvc s1 = (Inr x, s2) \<and> \<not> comparator r d x \<and>
    fault s (UpdateCall (x\<lparr>acSpec := acSpec d, Labels := Labels d\<rparr>)) = Some e \<longrightarrow>
      Reconcile r isvc s =
        (Return (Some (WithMessage e (''could not store AuthConfig '' @ Name d @
                                       '' for InferenceService '' @ Name d))),
         logged (UpdateCall (x\<lparr>acSpec := acSpec d, Labels := Labels d\<rparr>)) s2) \<and>
      mutations (logged (UpdateCall (x\<lparr>acSpec := acSpec d, Labels := Labels d\<rparr>)) s2) =
        mutations s @ [UpdateCall (x\<lparr>acSpec := acSpec d, Labels := Labels d\<rparr>)] \<and>
      objs (logged (UpdateCall (x\<lparr>acSpec := acSpec d, Labels := Labels d\<rparr>)) s2) = objs s"
    using Reconcile_update_fails [of isvc url r s d s1 x s2 e] by blast
  have d1: "fault t (CreateCall d') = Some e \<longrightarrow>
      processDelta_dashboard r' t (Some d') None = (Return (Some e), logged (CreateCall d') t)"
    using processDelta_dashboard_create_fails [of t d' e r'] by blast
  have d2: "\<not> configMapComparator r' d' x' \<and>
    fault t (UpdateCall (x'\<lparr>Labels := Labels d', Data := Data d'\<rparr>)) = Some e \<longrightarrow>
      processDelta_dashboard r' t (Some d') (Some x') =
        (Return (Some e), logged (UpdateCall (x'\<lparr>Labels := Labels d', Data := Data d'\<rparr>)) t)"
    using processDelta_dashboard_update_fails [of r' d' x' t e] by blast
  have d3: "fault t (DeleteCall (key_of x')) = Some e \<longrightarrow>
      processDelta_dashboard r' t None (Some x') =
        (Return (Some e), logged (DeleteCall (key_of x')) t)"
    using processDelta_dashboard_delete_fails [of t x' e r'] by blast
  have d4: "createDesiredResource_dashboard r' isvc' t = (Ok d', t1) \<and>
    getExistingResource_dashboard isvc' t1 = (Inr None, t2) \<and>
    fault t (CreateCall d') = Some e \<longrightarrow>
      Reconcile_dashboard r' isvc' t = (Return (Some e), logged (CreateCall d') t2) \<and>
      mutations (logged (CreateCall d') t2) = mutations t @ [CreateCall d'] \<and>
      objs (logged (CreateCall d') t2) = objs t"
    using Reconcile_dashboard_create_fails [of r' isvc' t d' t1 t2 e] by blast
  have d5: "createDesiredResource_dashboard r' isvc' t = (Ok d', t1) \<and>
    getExistingResource_dashboard isvc' t1 = (Inr (Some x'), t2) \<and>
    \<not> configMapComparator r' d' x' \<and>
    fault t (UpdateCall (x'\<lparr>Labels := Labels d', Data := Data d'\<rparr>)) = Some e \<longrightarrow>
      Reconcile_dashboard r' isvc' t =
        (Return (Some e), logged (UpdateCall (x'\<lparr>Labels := Labels d', Data := Data d'\<rparr>)) t2) \<and>
      mutations (logged (UpdateCall (x'\<lparr>Labels := Labels d', Data := Data d'\<rparr>)) t2) =
        mutations t @ [UpdateCall (x'\<lparr>Labels := Labels d', Data := Data d'\<rparr>)] \<and>
      objs (logged (UpdateCall (x'\<lparr>Labels := Labels d', Data := Data d'\<rparr>)) t2) = objs t"
    using Reconcile_dashboard_update_fails [of r' isvc' t d' t1 x' t2 e] by blast
  from a1 a2 a3 a4 a5 d1 d2 d3 d4 d5 show ?thesis
    by (intro conjI)
qed

theorem failed_apply_returns_store_error_witness:
  "fault (failing_on (UpdateCall example_merged) conflict (store_holding example_existing))
     (CreateCall example_desired) = None \<and>
   fst (Reconcile example_reconciler example_isvc
          (failing_on (UpdateCall example_merged) conflict (store_holding example_existing)))
     = Return (Some (WithMessage conflict
         ''could not store AuthConfig mnist for InferenceService mnist'')) \<and>
   mutations (snd (Reconcile example_reconciler example_isvc
          (failing_on (UpdateCall example_merged) conflict (store_holding example_existing))))
     = [UpdateCall example_merged] \<and>
   fst (processDelta example_reconciler (failing_store conflict) None (Some example_existing))
     = Return (Some (WithMessage conflict
         ''could not remove AuthConfig mnist for InferenceService mnist'')) \<and>
   processDelta_dashboard example_dashboard_reconciler (dashboard_state_of (failing_store conflict))
       (Some example_dashboard_desired) None
     = (Return (Some conflict),
        logged (CreateCall example_dashboard_desired) (dashboard_state_of (failing_store conflict)))"
proof -
  let ?s = "failing_on (UpdateCall example_merged) conflict (store_holding example_existing)"
  let ?s1 = "logged (LookupCall ''Load'') (logged (LookupCall ''Detect'') ?s)"
  let ?s2 = "logged (GetCall (''demo'', ''mnist'')) ?s1"
  have merged: "example_existing\<lparr>acSpec := acSpec example_desired, Labels := Labels example_desired\<rparr>
      = example_merged"
    by (simp add: example_merged_def)
  have h0: "fault ?s (CreateCall example_desired) = None"
    by (simp add: failing_on_def)
  have h1: "StatusURL example_isvc = Some ''https://mnist.demo.example''"
    by (rule example_isvc_fields)
  have h2: "getExistingResource example_isvc ?s1 = (Inr example_existing, ?s2)"
    by (rule example_fetch_holding) simp
  have h3: "\<not> comparator example_reconciler example_desired example_existing"
    using example_delta_update by (auto split: if_splits)
  have h4: "fault ?s (UpdateCall example_merged) = Some conflict"
    by (simp add: failing_on_def)
  have h5: "mutations ?s = []"
    by (simp add: mutations_def failing_on_def store_holding_def)
  have h6: "fault (failing_store conflict) (DeleteCall (Namespace example_existing, Name example_existing))
      = Some conflict"
    "Name example_existing = ''mnist''"
    by (simp_all add: failing_store_def example_existing_def)
  have h7: "fault (dashboard_state_of (failing_store conflict)) (CreateCall example_dashboard_desired)
      = Some conflict"
    by (simp add: dashboard_state_of_def failing_store_def store.extend_def)
  note inst = failed_apply_returns_store_error
      [where r = example_reconciler and isvc = example_isvc and s = ?s and d = example_desired
        and x = example_existing and e = conflict and url = "''https://mnist.demo.example''"
        and ?s1.0 = ?s1 and ?s2.0 = ?s2]
  from inst [THEN conjunct2, THEN conjunct2, THEN conjunct2, THEN conjunct2, THEN conjunct1]
    h1 h2 h3 h4 h5 merged example_build [of ?s]
  have upd: "fst (Reconcile example_reconciler example_isvc ?s)
        = Return (Some (WithMessage conflict
            (''could not store AuthConfig '' @ Name example_desired @
             '' for InferenceService '' @ Name example_desired))) \<and>
      mutations (snd (Reconcile example_reconciler example_isvc ?s)) = [UpdateCall example_merged]"
    by simp
  from failed_apply_returns_store_error
      [where r = example_reconciler and s = "failing_store conflict" and x = example_existing
        and e = conflict, THEN conjunct2, THEN conjunct2, THEN conjunct1, rule_format,
        OF h6(1)] h6(2)
  have del: "fst (processDelta example_reconciler (failing_store conflict) None (Some example_existing))
     = Return (Some (WithMessage conflict
         ''could not remove AuthConfig mnist for InferenceService mnist''))"
    by simp
  from failed_apply_returns_store_error
      [where r' = example_dashboard_reconciler and t = "dashboard_state_of (failing_store conflict)"
        and d' = example_dashboard_desired and e = conflict,
        THEN conjunct2, THEN conjunct2, THEN conjunct2, THEN conjunct2, THEN conjunct2,
        THEN conjunct1, rule_format, OF h7]
  have dash: "processDelta_dashboard example_dashboard_reconciler
       (dashboard_state_of (failing_store conflict)) (Some example_dashboard_desired) None
     = (Return (Some conflict),
        logged (CreateCall example_dashboard_desired) (dashboard_state_of (failing_store conflict)))"
    by simp
  have nm: "Name example_desired = ''mnist''" by (simp add: example_desired_def)
  from h0 upd del dash nm show ?thesis by simp
qed

text \<open>
  C4 (reflexivity of the comparators) does not hold of the monitoring controller's
  comparators: each compares an ObjectMeta with a map of labels, two values of distinct
  types, so it reports any resource unequal to itself.
\<close>

theorem monitoring_comparators_not_reflexive:
  "arePeerAuthsEqual (Some r) (Some r) = Inr False \<and>
   areNetworkPoliciesEqual (Some n) (Some n) = Inr False"
  by (simp add: arePeerAuthsEqual_def areNetworkPoliciesEqual_def DeepEqual_def)

theorem monitoring_comparators_not_reflexive_witness:
  "arePeerAuthsEqual (Some (buildDesiredPeerAuth ''caikit'' ''demo'' ''mnist''))
     (Some (buildDesiredPeerAuth ''caikit'' ''demo'' ''mnist'')) = Inr False"
  using monitoring_comparators_not_reflexive [of "buildDesiredPeerAuth ''caikit'' ''demo'' ''mnist''"] by simp

text \<open>
  C5 (no-op safety). When the computed delta is no-change, processDelta returns nil and
  leaves the state, the log of calls included, exactly as it was; and a pass that fetched an
  existing resource with such a delta returns nil with no mutation call made and the
  store's objects unchanged. Both reconcilers.
\<close>

theorem no_change_no_store_call:
  "(ComputeDelta (comparator r) desired existing = DeltaNone \<longrightarrow>
      processDelta r s desired existing = (Return None, s)) \<and>
   (StatusURL isvc = Some url \<and> createDesiredResource r isvc s = (Inr d, s1) \<and>
    getExistingResource isvc s1 = (Inr e, s2) \<and>
    ComputeDelta (comparator r) (Some d) (Some e) = DeltaNone \<longrightarrow>
      Reconcile r isvc s = (Return None, s2) \<and> mutations s2 = mutations s \<and> objs s2 = objs s) \<and>
   (ComputeDelta (configMapComparator r') desired' existing' = DeltaNone \<longrightarrow>
      processDelta_dashboard r' t desired' existing' = (Return None, t)) \<and>
   (createDesiredResource_dashboard r' isvc' t = (Ok d', t1) \<and>
    getExistingResource_dashboard isvc' t1 = (Inr ex', t2) \<and>
    ComputeDelta (configMapComparator r') (Some d') ex' = DeltaNone \<longrightarrow>
      Reconcile_dashboard r' isvc' t = (Return None, t2) \<and> mutations t2 = mutations t \<and>
      objs t2 = objs t)"
proof (intro conjI impI)
  assume "ComputeDelta (comparator r) desired existing = DeltaNone"
  then show "processDelta r s desired existing = (Return None, s)"
    by (simp add: processDelta_def)
next
  assume a: "StatusURL isvc = Some url \<and> createDesiredResource r isvc s = (Inr d, s1) \<and>
    getExistingResource isvc s1 = (Inr e, s2) \<and>
    ComputeDelta (comparator r) (Some d) (Some e) = DeltaNone"
  then have "Reconcile r isvc s = processDelta r s2 (Some d) (Some e)"
    using Reconcile_after_fetch [of isvc url r s d s1 "Inr e" s2] by simp
  with a show "Reconcile r isvc s = (Return None, s2)" by (simp add: processDelta_def)
  from a have f1: "mutations s1 = mutations s" "objs s1 = objs s"
    using createDesiredResource_frame [of r isvc s "Inr d" s1] by simp_all
  from a have f2: "s2 = logged (GetCall (Namespace isvc, Name isvc)) s1"
    using getExistingResource_state by blast
  from f1 f2 show "mutations s2 = mutations s" by (simp add: mutations_logged)
  from f1 f2 show "objs s2 = objs s" by (simp add: logged_fields)
next
  assume "ComputeDelta (configMapComparator r') desired' existing' = DeltaNone"
  then show "processDelta_dashboard r' t desired' existing' = (Return None, t)"
    by (rule processDelta_dashboard_none)
next
  assume a: "createDesiredResource_dashboard r' isvc' t = (Ok d', t1) \<and>
    getExistingResource_dashboard isvc' t1 = (Inr ex', t2) \<and>
    ComputeDelta (configMapComparator r') (Some d') ex' = DeltaNone"
  then have "Reconcile_dashboard r' isvc' t = processDelta_dashboard r' t2 (Some d') ex'"
    using Reconcile_dashboard_after_fetch [of r' isvc' t d' t1 "Inr ex'" t2] by simp
  with a show "Reconcile_dashboard r' isvc' t = (Return None, t2)"
    by (simp add: processDelta_dashboard_none)
  from a have f1: "mutations t1 = mutations t" "objs t1 = objs t"
    using createDesiredResource_dashboard_frame [of r' isvc' t "Ok d'" t1] by simp_all
  from a have f2: "t2 = logged (GetCall (Namespace isvc', Name isvc' @ ''-metrics-dashboard'')) t1"
    using getExistingResource_dashboard_state by blast
  from f1 f2 show "mutations t2 = mutations t" by (simp add: mutations_logged)
  from f1 f2 show "objs t2 = objs t" by (simp add: logged_fields)
qed

theorem no_change_no_store_call_witness:
  "ComputeDelta (comparator example_reconciler) (Some example_desired) (Some example_in_sync) = DeltaNone \<and>
   fst (Reconcile example_reconciler example_isvc (store_holding example_in_sync)) = Return None \<and>
   mutations (snd (Reconcile example_reconciler example_isvc (store_holding example_in_sync))) = []"
proof -
  have h1: "StatusURL example_isvc = Some ''https://mnist.demo.example''"
    by (simp add: example_isvc_def)
  have h2: "ComputeDelta (comparator example_reconciler) (Some example_desired) (Some example_in_sync)
      = DeltaNone"
    by (simp add: example_reconciler_def owned_fields_comparator_def example_in_sync_def
        example_desired_def example_existing_def)
  have h3: "mutations (store_holding example_in_sync) = []"
    by (simp add: mutations_def store_holding_def)
  from no_change_no_store_call [where r = example_reconciler and isvc = example_isvc and d = example_desired
      and e = example_in_sync and s = "store_holding example_in_sync"
      and url = "''https://mnist.demo.example''"
      and ?s1.0 = "logged (LookupCall ''Load'') (logged (LookupCall ''Detect'') (store_holding example_in_sync))"
      and ?s2.0 = "logged (GetCall (''demo'', ''mnist''))
        (logged (LookupCall ''Load'') (logged (LookupCall ''Detect'') (store_holding example_in_sync)))"]
    h1 h2 h3 example_build example_fetch_in_sync
  show ?thesis by simp
qed

text \<open>
  C6 (merge on update). When the delta is update, the one call processDelta makes is an
  Update of the existing resource with the owned fields replaced by the desired ones (Spec
  and Labels of an AuthConfig; Labels and Data of a ConfigMap): name, namespace, UID,
  resource version, annotations, owner references and the remaining fields of the written
  object are those of the existing resource.
\<close>

theorem update_keeps_unowned_fields:
  "(ComputeDelta (comparator r) (Some d) (Some e) = DeltaUpdate \<longrightarrow>
      (\<exists>rp. calls (snd (processDelta r s (Some d) (Some e))) = calls s @ [UpdateCall rp] \<and>
            rp = e\<lparr>acSpec := acSpec d, Labels := Labels d\<rparr> \<and>
            acSpec rp = acSpec d \<and> Labels rp = Labels d \<and>
            Name rp = Name e \<and> Namespace rp = Namespace e \<and> UID rp = UID e \<and>
            ResourceVersion rp = ResourceVersion e \<and> Annotations rp = Annotations e \<and>
            OwnerReferences rp = OwnerReferences e \<and> acStatus rp = acStatus e)) \<and>
   (ComputeDelta (configMapComparator r') (Some d') (Some e') = DeltaUpdate \<longrightarrow>
      (\<exists>rp. calls (snd (processDelta_dashboard r' t (Some d') (Some e'))) = calls t @ [UpdateCall rp] \<and>
            rp = e'\<lparr>Labels := Labels d', Data := Data d'\<rparr> \<and>
            Data rp = Data d' \<and> Labels rp = Labels d' \<and>
            Name rp = Name e' \<and> Namespace rp = Namespace e' \<and> UID rp = UID e' \<and>
            ResourceVersion rp = ResourceVersion e' \<and> Annotations rp = Annotations e' \<and>
            OwnerReferences rp = OwnerReferences e' \<and> BinaryData rp = BinaryData e' \<and>
            Immutable rp = Immutable e'))"
proof (intro conjI impI)
  assume "ComputeDelta (comparator r) (Some d) (Some e) = DeltaUpdate"
  then have "calls (snd (processDelta r s (Some d) (Some e))) =
      calls s @ [UpdateCall (e\<lparr>acSpec := acSpec d, Labels := Labels d\<rparr>)]"
    by (auto simp add: processDelta_def store_Update_def logged_def Let_def
        split: option.splits if_splits prod.splits)
  then show "\<exists>rp. calls (snd (processDelta r s (Some d) (Some e))) = calls s @ [UpdateCall rp] \<and>
            rp = e\<lparr>acSpec := acSpec d, Labels := Labels d\<rparr> \<and>
            acSpec rp = acSpec d \<and> Labels rp = Labels d \<and>
            Name rp = Name e \<and> Namespace rp = Namespace e \<and> UID rp = UID e \<and>
            ResourceVersion rp = ResourceVersion e \<and> Annotations rp = Annotations e \<and>
            OwnerReferences rp = OwnerReferences e \<and> acStatus rp = acStatus e"
    by simp
next
  assume "ComputeDelta (configMapComparator r') (Some d') (Some e') = DeltaUpdate"
  then have nc: "\<not> configMapComparator r' d' e'" by (auto split: if_splits)
  have "calls (snd (processDelta_dashboard r' t (Some d') (Some e'))) =
      calls t @ [UpdateCall (e'\<lparr>Labels := Labels d', Data := Data d'\<rparr>)]"
    by (auto simp add: processDelta_dashboard_update [OF nc] store_Update_def logged_def Let_def
        split: option.splits if_splits prod.splits)
  then show "\<exists>rp. calls (snd (processDelta_dashboard r' t (Some d') (Some e'))) = calls t @ [UpdateCall rp] \<and>
            rp = e'\<lparr>Labels := Labels d', Data := Data d'\<rparr> \<and>
            Data rp = Data d' \<and> Labels rp = Labels d' \<and>
            Name rp = Name e' \<and> Namespace rp = Namespace e' \<and> UID rp = UID e' \<and>
            ResourceVersion rp = ResourceVersion e' \<and> Annotations rp = Annotations e' \<and>
            OwnerReferences rp = OwnerReferences e' \<and> BinaryData rp = BinaryData e' \<and>
            Immutable rp = Immutable e'"
    by simp
qed

theorem update_keeps_unowned_fields_witness:
  "ComputeDelta (comparator example_reconciler) (Some example_desired) (Some example_existing)
     = DeltaUpdate \<and>
   calls (snd (processDelta example_reconciler (store_holding example_existing)
                 (Some example_desired) (Some example_existing)))
     = [UpdateCall (example_existing\<lparr>acSpec := acSpec example_desired\<rparr>)] \<and>
   ResourceVersion (example_existing\<lparr>acSpec := acSpec example_desired\<rparr>) = 4 \<and>
   Hosts (acSpec (example_existing\<lparr>acSpec := acSpec example_desired\<rparr>)) = [''mnist.demo.example'']"
proof -
  have same_labels: "Labels example_desired = Labels example_existing"
    by (simp add: example_desired_def example_existing_def)
  have no_calls: "calls (store_holding example_existing) = []"
    by (simp add: store_holding_def)
  from update_keeps_unowned_fields [where r = example_reconciler and d = example_desired and e = example_existing
      and s = "store_holding example_existing"]
    example_delta_update same_labels no_calls
  show ?thesis by (simp add: example_existing_def example_desired_def)
qed

text \<open>
  C7 (fetch outcomes). After a successful build, when the read of the existing resource
  fails with a not-found error the pass goes on as processDelta with an absent existing
  resource; when it fails with any other error the pass returns that error, having made no
  mutation call and with the store's objects unchanged. Both reconcilers.
\<close>

theorem fetch_not_found_or_abort:
  "(StatusURL isvc = Some url \<and> createDesiredResource r isvc s = (Inr d, s1) \<and>
    getExistingResource isvc s1 = (Inl err, s2) \<longrightarrow>
      (if IsNotFound err
       then Reconcile r isvc s = processDelta r s2 (Some d) None
       else Reconcile r isvc s = (Return (Some err), s2) \<and> mutations s2 = mutations s \<and>
            objs s2 = objs s)) \<and>
   (createDesiredResource_dashboard r' isvc' t = (Ok d', t1) \<and>
    store_Get t1 (Namespace isvc', Name isvc' @ ''-metrics-dashboard'') = (Inl err', t2) \<longrightarrow>
      (if IsNotFound err'
       then Reconcile_dashboard r' isvc' t = processDelta_dashboard r' t2 (Some d') None
       else Reconcile_dashboard r' isvc' t = (Return (Some err'), t2) \<and>
            mutations t2 = mutations t \<and> objs t2 = objs t))"
proof (intro conjI impI)
  assume a: "StatusURL isvc = Some url \<and> createDesiredResource r isvc s = (Inr d, s1) \<and>
    getExistingResource isvc s1 = (Inl err, s2)"
  then have rec: "Reconcile r isvc s =
      (if IsNotFound err then processDelta r s2 (Some d) None else (Return (Some err), s2))"
    using Reconcile_after_fetch [of isvc url r s d s1 "Inl err" s2] by simp
  from a have f1: "mutations s1 = mutations s" "objs s1 = objs s"
    using createDesiredResource_frame [of r isvc s "Inr d" s1] by simp_all
  from a have f2: "s2 = logged (GetCall (Namespace isvc, Name isvc)) s1"
    using getExistingResource_state by blast
  from f1 f2 have "mutations s2 = mutations s" "objs s2 = objs s"
    by (simp_all add: mutations_logged logged_fields)
  with rec show "if IsNotFound err
       then Reconcile r isvc s = processDelta r s2 (Some d) None
       else Reconcile r isvc s = (Return (Some err), s2) \<and> mutations s2 = mutations s \<and>
            objs s2 = objs s"
    by simp
next
  assume a: "createDesiredResource_dashboard r' isvc' t = (Ok d', t1) \<and>
    store_Get t1 (Namespace isvc', Name isvc' @ ''-metrics-dashboard'') = (Inl err', t2)"
  then have g: "getExistingResource_dashboard isvc' t1 =
      (if IsNotFound err' then (Inr None, t2) else (Inl err', t2))"
    by (simp add: getExistingResource_dashboard_def)
  have rec: "Reconcile_dashboard r' isvc' t =
      (if IsNotFound err' then processDelta_dashboard r' t2 (Some d') None
       else (Return (Some err'), t2))"
  proof (cases "IsNotFound err'")
    case True
    with a g show ?thesis
      using Reconcile_dashboard_after_fetch [of r' isvc' t d' t1 "Inr None" t2] by simp
  next
    case False
    with a g show ?thesis
      using Reconcile_dashboard_after_fetch [of r' isvc' t d' t1 "Inl err'" t2] by simp
  qed
  from a have f1: "mutations t1 = mutations t" "objs t1 = objs t"
    using createDesiredResource_dashboard_frame [of r' isvc' t "Ok d'" t1] by simp_all
  from a have f2: "t2 = logged (GetCall (Namespace isvc', Name isvc' @ ''-metrics-dashboard'')) t1"
    using store_Get_state [of t1 "(Namespace isvc', Name isvc' @ ''-metrics-dashboard'')"] by simp
  from f1 f2 have "mutations t2 = mutations t" "objs t2 = objs t"
    by (simp_all add: mutations_logged logged_fields)
  with rec show "if IsNotFound err'
       then Reconcile_dashboard r' isvc' t = processDelta_dashboard r' t2 (Some d') None
       else Reconcile_dashboard r' isvc' t = (Return (Some err'), t2) \<and>
            mutations t2 = mutations t \<and> objs t2 = objs t"
    by simp
qed

theorem fetch_not_found_or_abort_witness:
  "\<not> IsNotFound (StatusError Forbidden ''authconfigs is forbidden'') \<and>
   fst (Reconcile example_reconciler example_isvc
          (unreadable_store (StatusError Forbidden ''authconfigs is forbidden'')))
     = Return (Some (StatusError Forbidden ''authconfigs is forbidden'')) \<and>
   mutations (snd (Reconcile example_reconciler example_isvc
          (unreadable_store (StatusError Forbidden ''authconfigs is forbidden'')))) = [] \<and>
   IsNotFound (StatusError NotFound ''demo/mnist'') \<and>
   fst (Reconcile example_reconciler example_isvc empty_store) = Return None \<and>
   mutations (snd (Reconcile example_reconciler example_isvc empty_store))
     = [CreateCall example_desired]"
proof -
  let ?e = "StatusError Forbidden ''authconfigs is forbidden''"
  let ?u = "unreadable_store ?e :: AuthConfig store"
  let ?u1 = "logged (LookupCall ''Load'') (logged (LookupCall ''Detect'') ?u)"
  let ?u2 = "logged (GetCall (''demo'', ''mnist'')) ?u1"
  let ?s = "empty_store :: AuthConfig store"
  let ?s1 = "logged (LookupCall ''Load'') (logged (LookupCall ''Detect'') ?s)"
  let ?s2 = "logged (GetCall (''demo'', ''mnist'')) ?s1"
  have h1: "StatusURL example_isvc = Some ''https://mnist.demo.example''"
    by (rule example_isvc_fields)
  have h2: "mutations ?u = []"
    by (simp add: mutations_def unreadable_store_def)
  from fetch_not_found_or_abort [where r = example_reconciler and isvc = example_isvc
      and d = example_desired and err = ?e and s = ?u
      and url = "''https://mnist.demo.example''" and ?s1.0 = ?u1 and ?s2.0 = ?u2]
    h1 h2 example_build example_fetch_unreadable
  have abort: "fst (Reconcile example_reconciler example_isvc ?u) = Return (Some ?e) \<and>
      mutations (snd (Reconcile example_reconciler example_isvc ?u)) = []"
    by simp
  from fetch_not_found_or_abort [where r = example_reconciler and isvc = example_isvc
      and d = example_desired and err = "StatusError NotFound ''demo/mnist''" and s = ?s
      and url = "''https://mnist.demo.example''" and ?s1.0 = ?s1 and ?s2.0 = ?s2]
    h1 example_build example_fetch_absent
  have "Reconcile example_reconciler example_isvc ?s =
      processDelta example_reconciler ?s2 (Some example_desired) None"
    by simp
  then have continue: "fst (Reconcile example_reconciler example_isvc ?s) = Return None \<and>
      mutations (snd (Reconcile example_reconciler example_isvc ?s)) = [CreateCall example_desired]"
    by (simp add: example_add mutations_def)
  from abort continue show ?thesis by simp
qed

text \<open>
  C8 (the build step does not fault) does not hold of the metrics dashboard reconciler:
  when the read of the serving runtime fails, the error is logged and
  \<open>runtime.Spec.Containers[0]\<close> is evaluated on the empty runtime, which panics with an
  index out of range; Reconcile panics with it.
\<close>

theorem failed_runtime_lookup_panics:
  "Model isvc = Some m \<and> Runtime m = Some rt \<and> getServingRuntime r (Namespace isvc, rt) = Inl err \<longrightarrow>
     createDesiredResource_dashboard r isvc s =
       (Panicked IndexOutOfRange, logged (LookupCall ''ServingRuntime'') s) \<and>
     fst (Reconcile_dashboard r isvc s) = Panic IndexOutOfRange"
  by (simp add: createDesiredResource_dashboard_def Reconcile_dashboard_def empty_ServingRuntime_def Let_def)

theorem failed_runtime_lookup_panics_witness:
  "getServingRuntime example_dashboard_reconciler (''demo'', ''deleted-runtime'')
     = Inl (StatusError NotFound ''demo/deleted-runtime'') \<and>
   fst (createDesiredResource_dashboard example_dashboard_reconciler example_isvc_unknown_runtime
          (dashboard_state_of empty_store)) = Panicked IndexOutOfRange \<and>
   fst (Reconcile_dashboard example_dashboard_reconciler example_isvc_unknown_runtime
          (dashboard_state_of empty_store)) = Panic IndexOutOfRange"
  using failed_runtime_lookup_panics [of example_isvc_unknown_runtime "\<lparr>ModelFormatName = ''caikit'', Runtime = Some ''deleted-runtime''\<rparr>"
      "''deleted-runtime''" example_dashboard_reconciler "StatusError NotFound ''demo/deleted-runtime''"
      "dashboard_state_of empty_store"]
  by (simp add: example_isvc_unknown_runtime_def example_isvc_def example_dashboard_reconciler_def
      NamespacedName_String_def)

text \<open>
  C9. For an InferenceService whose \<open>Status.URL\<close> is nil,
  \<open>KserveAuthConfigReconciler.Reconcile\<close> returns nil and leaves the state as it was: no
  auxiliary lookup (nothing is built), no read and no mutation is logged.
\<close>

theorem no_url_no_calls: "StatusURL isvc = None \<Longrightarrow> Reconcile r isvc s = (Return None, s)"
  by (simp add: Reconcile_def)

theorem no_url_no_calls_witness:
  "Reconcile example_reconciler (example_isvc\<lparr>StatusURL := None\<rparr>) empty_store
     = (Return None, empty_store) \<and> calls (empty_store :: AuthConfig store) = []"
  using no_url_no_calls [of "example_isvc\<lparr>StatusURL := None\<rparr>" example_reconciler empty_store]
  by (simp add: empty_store_def)

text \<open>
  C10. For an InferenceService without the deploymentMode annotation, when the operator
  namespace is determined, the configmap is fetched and the text under its key
  \<open>deploy\<close> is decoded without error, \<open>GetDeploymentModeForIsvc\<close> returns RawDeployment and
  a nil error, whatever the decoded \<open>defaultDeploymentMode\<close> is: a decoded value never has
  the dynamic type \<open>IsvcDeploymentMode\<close>, so the comparison with \<open>Serverless\<close> is false.
\<close>

theorem configmap_default_is_RawDeployment:
  "map_index (Annotations isvc) inferenceServiceDeploymentModeAnnotation = None \<and>
   GetOperatorNamespace env = (controllerNs, None) \<and>
   getConfigMap env (controllerNs, KserveConfigMapName) = Inr cm \<and>
   json_Unmarshal env (case map_index (Data cm) ''deploy'' of None \<Rightarrow> [] | Some text \<Rightarrow> text)
     = Inr deployData \<longrightarrow>
   GetDeploymentModeForIsvc env isvc = (RawDeployment, None)"
  by (simp add: GetDeploymentModeForIsvc_def decoded_never_mode Let_def split: option.splits)

theorem configmap_default_is_RawDeployment_witness:
  "map_index (Data example_config) ''deploy'' = Some example_deploy_text \<and>
   json_Unmarshal example_env example_deploy_text
     = Inr (Some [''defaultDeploymentMode'' \<mapsto> JString ''Serverless'']) \<and>
   GetDeploymentModeForIsvc example_env example_isvc = (''RawDeployment'', None)"
  using configmap_default_is_RawDeployment [of example_isvc example_env "''opendatahub''" example_config
      "Some [''defaultDeploymentMode'' \<mapsto> JString ''Serverless'']"]
  by (simp add: example_isvc_def example_env_def example_config_def map_index_def
      GetOperatorNamespace_def TrimSpace_def is_space_def KserveConfigMapName_def
      RawDeployment_def)

end
